theory Spec2Isabelle
  imports Main
begin

section \<open>Python values\<close>

text \<open>
  The pipeline of \<^verbatim>\<open>main.py\<close> works on the document that \<^verbatim>\<open>r.json()\<close> decodes: a tree
  of dicts, lists, strings, numbers, booleans and \<^verbatim>\<open>None\<close>. \<^verbatim>\<open>transform_hourly\<close> stores
  \<^verbatim>\<open>datetime\<close> objects and floats back into that tree, so both are values too.

  A dict is an association list in insertion order (its keys are kept distinct by
  \<open>dict_set\<close>, as Python keeps them); JSON keys are strings. A decoded document shares
  no mutable object between two places, so a tree of values is enough to follow the
  in-place updates of the code.

  Binary floating point is left open: \<open>'f\<close> is the type of Python floats, and what
  \<^verbatim>\<open>float(x)\<close> returns is a parameter of the model (see \<open>env\<close> below).
\<close>

record datetime =
  year :: nat
  month :: nat
  day :: nat
  hour :: nat
  minute :: nat
  second :: nat

datatype py_error =
    KeyError string
  | TypeError
  | ValueError string
  | IndexError
  | AttributeError
  | RequestException
  | OperationalError
  | DuplicateTable
  | UndefinedTable
  | UniqueViolation

datatype 'f pyval =
    PNone
  | PBool bool
  | PInt int
  | PFloat 'f
  | PStr string
  | PList "'f pyval list"
  | PDict "(string \<times> 'f pyval) list"
  | PDatetime datetime

text \<open>\<^verbatim>\<open>d[k] = v\<close> on a dict: an existing key keeps its place, a new key goes last.\<close>

fun dict_set :: "string \<Rightarrow> 'v \<Rightarrow> (string \<times> 'v) list \<Rightarrow> (string \<times> 'v) list" where
  "dict_set k v [] = [(k, v)]"
| "dict_set k v ((k', v') # kvs) =
     (if k' = k then (k, v) # kvs else (k', v') # dict_set k v kvs)"

text \<open>\<^verbatim>\<open>x[k]\<close> with a string key: \<^verbatim>\<open>KeyError\<close> on a dict without it, \<^verbatim>\<open>TypeError\<close> on
  anything that is not a dict (a list or a string wants an integer index, the other
  values are not subscriptable).\<close>

definition py_getitem :: "'f pyval \<Rightarrow> string \<Rightarrow> py_error + 'f pyval" where
  "py_getitem x k =
     (case x of
        PDict kvs \<Rightarrow> (case map_of kvs k of None \<Rightarrow> Inl (KeyError k) | Some v \<Rightarrow> Inr v)
      | _ \<Rightarrow> Inl TypeError)"

text \<open>\<^verbatim>\<open>x[k] = v\<close> with a string key.\<close>

definition py_setitem :: "'f pyval \<Rightarrow> string \<Rightarrow> 'f pyval \<Rightarrow> py_error + 'f pyval" where
  "py_setitem x k v =
     (case x of PDict kvs \<Rightarrow> Inr (PDict (dict_set k v kvs)) | _ \<Rightarrow> Inl TypeError)"

text \<open>What a \<^verbatim>\<open>for\<close> loop iterates over: the elements of a list, the keys of a dict, the
  characters of a string; the other values are not iterable.\<close>

definition py_iter :: "'f pyval \<Rightarrow> py_error + 'f pyval list" where
  "py_iter x =
     (case x of
        PList xs \<Rightarrow> Inr xs
      | PDict kvs \<Rightarrow> Inr (map (\<lambda>kv. PStr (fst kv)) kvs)
      | PStr s \<Rightarrow> Inr (map (\<lambda>c. PStr [c]) s)
      | _ \<Rightarrow> Inl TypeError)"

text \<open>\<^verbatim>\<open>list(value.keys())[1]\<close>: the second key in insertion order.\<close>

definition second_key :: "'f pyval \<Rightarrow> py_error + 'f pyval" where
  "second_key x =
     (case x of
        PDict kvs \<Rightarrow> (case kvs of _ # kv # _ \<Rightarrow> Inr (PStr (fst kv)) | _ \<Rightarrow> Inl IndexError)
      | _ \<Rightarrow> Inl AttributeError)"

text \<open>What \<^verbatim>\<open>requests.get\<close> returns: the status code, and what \<^verbatim>\<open>r.json()\<close> gives (the
  decoded document, or the exception of a body that is not JSON).\<close>

datatype 'f response = Response nat "py_error + 'f pyval"

definition bind_err :: "'e + 'a \<Rightarrow> ('a \<Rightarrow> 'e + 'b) \<Rightarrow> 'e + 'b" where
  "bind_err m f = (case m of Inl e \<Rightarrow> Inl e | Inr x \<Rightarrow> f x)"

section \<open>The environment of a run\<close>

text \<open>
  What the script takes from outside itself: the three library conversions it calls
  (\<^verbatim>\<open>float\<close>, \<^verbatim>\<open>int\<close>, and \<^verbatim>\<open>datetime.strptime\<close> with the format
  \<^verbatim>\<open>"%Y-%m-%d %H:%M:%S"\<close>), the answer of the remote API to a URL, whether the database
  accepts a connection, and today's date as \<^verbatim>\<open>strftime("%Y-%m-%d")\<close> prints it.
  The theorems hold for every environment; \<open>cpython\<close> below is one instance.
\<close>

record 'f env =
  py_float :: "'f pyval \<Rightarrow> py_error + 'f"
  py_int :: "'f pyval \<Rightarrow> py_error + int"
  strptime :: "'f pyval \<Rightarrow> py_error + datetime"
  http_get :: "string \<Rightarrow> py_error + 'f response"
  db_reachable :: bool
  today :: string

section \<open>transform\_hourly\<close>

text \<open>
  A statement of the loop body acts on the object bound to \<^verbatim>\<open>value\<close>: it returns the
  object as it is afterwards, and the exception if one was raised. \<open>assign_item k rhs\<close>
  is \<^verbatim>\<open>value[k] = rhs\<close>: the right-hand side is evaluated first, then stored.
\<close>

definition assign_item ::
  "string \<Rightarrow> ('f pyval \<Rightarrow> py_error + 'f pyval) \<Rightarrow> 'f pyval \<Rightarrow> 'f pyval \<times> py_error option" where
  "assign_item k rhs v =
     (case rhs v of
        Inl e \<Rightarrow> (v, Some e)
      | Inr x \<Rightarrow> (case py_setitem v k x of Inl e \<Rightarrow> (v, Some e) | Inr v' \<Rightarrow> (v', None)))"

definition then_stmt ::
  "('a \<Rightarrow> 'a \<times> py_error option) \<Rightarrow> ('a \<Rightarrow> 'a \<times> py_error option) \<Rightarrow> 'a \<Rightarrow> 'a \<times> py_error option" where
  "then_stmt s1 s2 v = (case s1 v of (v', None) \<Rightarrow> s2 v' | (v', Some e) \<Rightarrow> (v', Some e))"

definition as_datetime :: "'f env \<Rightarrow> 'f pyval \<Rightarrow> py_error + 'f pyval" where
  "as_datetime E x = (case strptime E x of Inl e \<Rightarrow> Inl e | Inr d \<Rightarrow> Inr (PDatetime d))"

definition as_float :: "'f env \<Rightarrow> 'f pyval \<Rightarrow> py_error + 'f pyval" where
  "as_float E x = (case py_float E x of Inl e \<Rightarrow> Inl e | Inr f \<Rightarrow> Inr (PFloat f))"

definition as_int :: "'f env \<Rightarrow> 'f pyval \<Rightarrow> py_error + 'f pyval" where
  "as_int E x = (case py_int E x of Inl e \<Rightarrow> Inl e | Inr n \<Rightarrow> Inr (PInt n))"

text \<open>\<^verbatim>\<open>response_dict["meta"]["symbol"]\<close>.\<close>

definition meta_symbol :: "'f pyval \<Rightarrow> py_error + 'f pyval" where
  "meta_symbol response_dict =
     bind_err (py_getitem response_dict ''meta'') (\<lambda>m. py_getitem m ''symbol'')"

text \<open>Lines 44 to 50: the body of the loop, on one element of \<^verbatim>\<open>response_dict["values"]\<close>.\<close>

definition transform_hourly_record ::
  "'f env \<Rightarrow> 'f pyval \<Rightarrow> 'f pyval \<Rightarrow> 'f pyval \<times> py_error option" where
  "transform_hourly_record E response_dict =
     then_stmt (assign_item ''symbol'' (\<lambda>_. meta_symbol response_dict))
    (then_stmt (assign_item ''datetime'' (\<lambda>v. bind_err (py_getitem v ''datetime'') (as_datetime E)))
    (then_stmt (assign_item ''open'' (\<lambda>v. bind_err (py_getitem v ''open'') (as_float E)))
    (then_stmt (assign_item ''high'' (\<lambda>v. bind_err (py_getitem v ''high'') (as_float E)))
    (then_stmt (assign_item ''low'' (\<lambda>v. bind_err (py_getitem v ''low'') (as_float E)))
    (then_stmt (assign_item ''close'' (\<lambda>v. bind_err (py_getitem v ''close'') (as_float E)))
               (assign_item ''volume'' (\<lambda>v. bind_err (py_getitem v ''volume'') (as_int E))))))))"

text \<open>Lines 43 to 50: the loop. The elements before a failing one stay rewritten, the
  failing one keeps the fields already stored, the ones after it are untouched.\<close>

fun transform_hourly_loop ::
  "'f env \<Rightarrow> 'f pyval \<Rightarrow> 'f pyval list \<Rightarrow> 'f pyval list \<times> py_error option" where
  "transform_hourly_loop E response_dict [] = ([], None)"
| "transform_hourly_loop E response_dict (v # vs) =
     (case transform_hourly_record E response_dict v of
        (v', Some e) \<Rightarrow> (v' # vs, Some e)
      | (v', None) \<Rightarrow>
          (case transform_hourly_loop E response_dict vs of (vs', r) \<Rightarrow> (v' # vs', r)))"

section \<open>transform\_technical\<close>

text \<open>Lines 69 to 74: one fresh \<^verbatim>\<open>value_dict\<close>, its four keys inserted in this order.
  The input record is only read.\<close>

definition transform_technical_record ::
  "'f env \<Rightarrow> 'f pyval \<Rightarrow> string \<Rightarrow> 'f pyval \<Rightarrow> py_error + 'f pyval" where
  "transform_technical_record E response_dict indicator v =
     bind_err (meta_symbol response_dict) (\<lambda>sym.
     bind_err (bind_err (py_getitem v ''datetime'') (as_datetime E)) (\<lambda>d.
     bind_err (second_key v) (\<lambda>k.
     bind_err (bind_err (py_getitem v indicator) (as_float E)) (\<lambda>f.
       Inr (PDict [(''symbol'', sym), (''datetime'', d), (''indicator'', k), (''value'', f)])))))"

text \<open>Lines 67 to 74: \<^verbatim>\<open>value_list\<close> grows by one row per element, in order.\<close>

fun transform_technical_loop ::
  "'f env \<Rightarrow> 'f pyval \<Rightarrow> string \<Rightarrow> 'f pyval list \<Rightarrow> py_error + 'f pyval list" where
  "transform_technical_loop E response_dict indicator [] = Inr []"
| "transform_technical_loop E response_dict indicator (v # vs) =
     (case transform_technical_record E response_dict indicator v of
        Inl e \<Rightarrow> Inl e
      | Inr row \<Rightarrow>
          (case transform_technical_loop E response_dict indicator vs of
             Inl e \<Rightarrow> Inl e
           | Inr rows \<Rightarrow> Inr (row # rows)))"

section \<open>The world a run acts on\<close>

text \<open>
  The state outside the process: the tables of the database as committed, the view of
  the connection that is open (its transaction sees its own uncommitted statements),
  and the trace of what the run did that can be seen from outside: requests, printed
  lines (by their label; the measured times are not modelled), sleeps, and the life
  cycle of database connections.

  A table holds its column declarations, the columns of its primary key and its rows,
  one value per column. Of the checks the server makes on an inserted row the model
  has the primary key; the checks of the column types are not modelled. The tables are
  one name space (the schemas of the server are not modelled), and the script is the
  only client of the database.
\<close>

datatype event =
    HttpGet string
  | Print string
  | Sleep nat
  | Connect
  | OpenCursor
  | ExecuteBatch string nat
  | Commit
  | CloseCursor
  | CloseConnection

record 'f table =
  columns :: "(string \<times> string) list"
  primary_key :: "string list"
  table_rows :: "'f pyval list list"

record 'f world =
  database :: "string \<rightharpoonup> 'f table"
  session :: "string \<rightharpoonup> 'f table"
  trace :: "event list"

definition emit :: "event \<Rightarrow> 'f world \<Rightarrow> 'f world \<times> py_error option" where
  "emit e w = (w\<lparr>trace := trace w @ [e]\<rparr>, None)"

section \<open>extract\<close>

text \<open>Lines 24 to 30, the function \<^verbatim>\<open>extract\<close> (a reserved word here, hence the name).
  The status code is printed and not looked at.\<close>

definition extract_url :: "'f env \<Rightarrow> string \<Rightarrow> 'f world \<Rightarrow> 'f world \<times> (py_error + 'f pyval)" where
  "extract_url E url w =
     (let w1 = w\<lparr>trace := trace w @ [HttpGet url]\<rparr> in
      case http_get E url of
        Inl e \<Rightarrow> (w1, Inl e)
      | Inr (Response status body) \<Rightarrow>
          (let w2 = w1\<lparr>trace := trace w1 @ [Print ''Status code'']\<rparr> in
           case body of
             Inl e \<Rightarrow> (w2, Inl e)
           | Inr response_dict \<Rightarrow>
               (w2\<lparr>trace := trace w2 @ [Print ''Extract time'']\<rparr>, Inr response_dict)))"

section \<open>create\_hourly\_table and create\_technical\_table\<close>

text \<open>Both functions take a cursor; it is the cursor of the connection that is open, as
  in their two callers.

  \<^verbatim>\<open>SELECT EXISTS(SELECT * FROM information_schema.tables WHERE table_name = %s)\<close>,
  then \<^verbatim>\<open>fetchone()[0]\<close>.\<close>

definition table_exists :: "'f world \<Rightarrow> string \<Rightarrow> bool" where
  "table_exists w name = (session w name \<noteq> None)"

text \<open>\<^verbatim>\<open>CREATE TABLE\<close>: the server refuses a name that is taken.\<close>

definition execute_create_table ::
  "string \<Rightarrow> 'f table \<Rightarrow> 'f world \<Rightarrow> 'f world \<times> py_error option" where
  "execute_create_table name t w =
     (if session w name \<noteq> None then (w, Some DuplicateTable)
      else (w\<lparr>session := (session w)(name \<mapsto> t)\<rparr>, None))"

definition hourly_data_table :: "'f table" where
  "hourly_data_table =
     \<lparr>columns = [(''ticker'', ''VARCHAR(10) NOT NULL''), (''datetime'', ''TIMESTAMP NOT NULL''),
                 (''open'', ''DECIMAL(10,2)''), (''high'', ''DECIMAL(10,2)''),
                 (''low'', ''DECIMAL(10,2)''), (''close'', ''DECIMAL(10,2)''),
                 (''volume'', ''BIGINT'')],
      primary_key = [''ticker'', ''datetime''],
      table_rows = []\<rparr>"

definition technical_data_table :: "'f table" where
  "technical_data_table =
     \<lparr>columns = [(''ticker'', ''VARCHAR(10) NOT NULL''), (''datetime'', ''TIMESTAMP NOT NULL''),
                 (''indicator'', ''VARCHAR(10) NOT NULL''), (''value'', ''DECIMAL(10,2)'')],
      primary_key = [''ticker'', ''datetime'', ''indicator''],
      table_rows = []\<rparr>"

definition create_hourly_table :: "'f world \<Rightarrow> 'f world \<times> py_error option" where
  "create_hourly_table w =
     (let exists = table_exists w ''hourly_data'' in
      if \<not> exists then execute_create_table ''hourly_data'' hourly_data_table w
      else (w, None))"

definition create_technical_table :: "'f world \<Rightarrow> 'f world \<times> py_error option" where
  "create_technical_table w =
     (let exists = table_exists w ''technical_data'' in
      if \<not> exists then execute_create_table ''technical_data'' technical_data_table w
      else (w, None))"

section \<open>load\_hourly and load\_technical\<close>

text \<open>\<^verbatim>\<open>psycopg2.connect\<close>: a new connection, whose transaction starts from the committed
  tables; \<^verbatim>\<open>OperationalError\<close> when the server does not accept it.\<close>

definition connect :: "'f env \<Rightarrow> 'f world \<Rightarrow> 'f world \<times> py_error option" where
  "connect E w =
     (if db_reachable E
      then (w\<lparr>session := database w, trace := trace w @ [Connect]\<rparr>, None)
      else (w, Some OperationalError))"

definition commit :: "'f world \<Rightarrow> 'f world \<times> py_error option" where
  "commit w = (w\<lparr>database := session w, trace := trace w @ [Commit]\<rparr>, None)"

text \<open>The values of the named placeholders \<^verbatim>\<open>%(key)s\<close> of a statement, taken from the
  row: a \<^verbatim>\<open>KeyError\<close> when the row lacks one.\<close>

fun mogrify :: "string list \<Rightarrow> 'f pyval \<Rightarrow> py_error + 'f pyval list" where
  "mogrify [] row = Inr []"
| "mogrify (k # ks) row =
     (case py_getitem row k of
        Inl e \<Rightarrow> Inl e
      | Inr x \<Rightarrow> (case mogrify ks row of Inl e \<Rightarrow> Inl e | Inr xs \<Rightarrow> Inr (x # xs)))"

fun mogrify_page :: "string list \<Rightarrow> 'f pyval list \<Rightarrow> py_error + 'f pyval list list" where
  "mogrify_page ks [] = Inr []"
| "mogrify_page ks (row # rows) =
     (case mogrify ks row of
        Inl e \<Rightarrow> Inl e
      | Inr xs \<Rightarrow> (case mogrify_page ks rows of Inl e \<Rightarrow> Inl e | Inr xss \<Rightarrow> Inr (xs # xss)))"

text \<open>The values of a row in the columns of the primary key.\<close>

definition key_of :: "'f table \<Rightarrow> 'f pyval list \<Rightarrow> 'f pyval list" where
  "key_of t xs =
     map snd (filter (\<lambda>cx. fst cx \<in> set (primary_key t)) (zip (map fst (columns t)) xs))"

text \<open>\<^verbatim>\<open>INSERT INTO name VALUES (...)\<close> of one row.\<close>

definition insert_row :: "string \<Rightarrow> 'f pyval list \<Rightarrow> 'f world \<Rightarrow> 'f world \<times> py_error option" where
  "insert_row name xs w =
     (case session w name of
        None \<Rightarrow> (w, Some UndefinedTable)
      | Some t \<Rightarrow>
          if key_of t xs \<in> set (map (key_of t) (table_rows t)) then (w, Some UniqueViolation)
          else (w\<lparr>session := (session w)(name \<mapsto> t\<lparr>table_rows := table_rows t @ [xs]\<rparr>)\<rparr>, None))"

fun insert_rows :: "string \<Rightarrow> 'f pyval list list \<Rightarrow> 'f world \<Rightarrow> 'f world \<times> py_error option" where
  "insert_rows name [] w = (w, None)"
| "insert_rows name (xs # xss) w =
     (case insert_row name xs w of
        (w', Some e) \<Rightarrow> (w', Some e)
      | (w', None) \<Rightarrow> insert_rows name xss w')"

text \<open>\<^verbatim>\<open>psycopg2.extras.execute_batch\<close> with its default page size: the rows go to the
  server a hundred statements at a time, each page composed in full before it is
  sent.\<close>

fun pages :: "'a list \<Rightarrow> 'a list list" where
  "pages [] = []"
| "pages (x # xs) = take 100 (x # xs) # pages (drop 100 (x # xs))"

fun execute_pages ::
  "string \<Rightarrow> string list \<Rightarrow> 'f pyval list list \<Rightarrow> 'f world \<Rightarrow> 'f world \<times> py_error option" where
  "execute_pages name ks [] w = (w, None)"
| "execute_pages name ks (page # ps) w =
     (case mogrify_page ks page of
        Inl e \<Rightarrow> (w, Some e)
      | Inr xss \<Rightarrow>
          (case insert_rows name xss w of
             (w', Some e) \<Rightarrow> (w', Some e)
           | (w', None) \<Rightarrow> execute_pages name ks ps w'))"

definition execute_batch ::
  "string \<Rightarrow> string list \<Rightarrow> 'f pyval list \<Rightarrow> 'f world \<Rightarrow> 'f world \<times> py_error option" where
  "execute_batch name ks rows w =
     execute_pages name ks (pages rows) (w\<lparr>trace := trace w @ [ExecuteBatch name (length rows)]\<rparr>)"

text \<open>The named placeholders of the two \<^verbatim>\<open>INSERT\<close> statements, in the order of the
  columns they fill.\<close>

definition hourly_placeholders :: "string list" where
  "hourly_placeholders =
     [''symbol'', ''datetime'', ''open'', ''high'', ''low'', ''close'', ''volume'']"

definition technical_placeholders :: "string list" where
  "technical_placeholders = [''symbol'', ''datetime'', ''indicator'', ''value'']"

text \<open>Lines 133 to 153.\<close>

definition load_hourly :: "'f env \<Rightarrow> 'f pyval list \<Rightarrow> 'f world \<Rightarrow> 'f world \<times> py_error option" where
  "load_hourly E hourly_data =
     then_stmt (connect E)
    (then_stmt (emit OpenCursor)
    (then_stmt create_hourly_table
    (then_stmt (execute_batch ''hourly_data'' hourly_placeholders hourly_data)
    (then_stmt commit
    (then_stmt (emit CloseCursor)
    (then_stmt (emit CloseConnection)
               (emit (Print ''Load time''))))))))"

text \<open>Lines 164 to 181.\<close>

definition load_technical :: "'f env \<Rightarrow> 'f pyval list \<Rightarrow> 'f world \<Rightarrow> 'f world \<times> py_error option" where
  "load_technical E technical_data =
     then_stmt (connect E)
    (then_stmt (emit OpenCursor)
    (then_stmt create_technical_table
    (then_stmt (execute_batch ''technical_data'' technical_placeholders technical_data)
    (then_stmt commit
    (then_stmt (emit CloseCursor)
    (then_stmt (emit CloseConnection)
               (emit (Print ''Load time''))))))))"

section \<open>The two transforms as the script calls them\<close>

text \<open>
  The list that \<^verbatim>\<open>transform_hourly\<close> rewrote is the list inside the document: after the
  loop \<^verbatim>\<open>response_dict["values"]\<close> holds the rewritten elements. (A \<^verbatim>\<open>values\<close> that is a
  dict or a string is iterated too, but none of its elements can be assigned to, so it
  stays as it is.)
\<close>

definition store_values :: "'f pyval \<Rightarrow> 'f pyval list \<Rightarrow> 'f pyval" where
  "store_values response_dict vs =
     (case response_dict of
        PDict kvs \<Rightarrow>
          (case map_of kvs ''values'' of
             Some (PList _) \<Rightarrow> PDict (dict_set ''values'' (PList vs) kvs)
           | _ \<Rightarrow> response_dict)
      | _ \<Rightarrow> response_dict)"

text \<open>Lines 42 to 53. The result holds the document as the call leaves it, the world,
  and the exception if one was raised.\<close>

definition transform_hourly ::
  "'f env \<Rightarrow> 'f pyval \<Rightarrow> 'f world \<Rightarrow> ('f pyval \<times> 'f world) \<times> py_error option" where
  "transform_hourly E response_dict w =
     (case bind_err (py_getitem response_dict ''values'') py_iter of
        Inl e \<Rightarrow> ((response_dict, w), Some e)
      | Inr vs \<Rightarrow>
          (case transform_hourly_loop E response_dict vs of
             (vs', Some e) \<Rightarrow> ((store_values response_dict vs', w), Some e)
           | (vs', None) \<Rightarrow>
               (case then_stmt (emit (Print ''Transform time'')) (load_hourly E vs') w of
                  (w', r) \<Rightarrow> ((store_values response_dict vs', w'), r))))"

text \<open>Lines 66 to 77.\<close>

definition transform_technical ::
  "'f env \<Rightarrow> 'f pyval \<Rightarrow> string \<Rightarrow> 'f world \<Rightarrow> ('f pyval \<times> 'f world) \<times> py_error option" where
  "transform_technical E response_dict indicator w =
     (case bind_err (py_getitem response_dict ''values'') py_iter of
        Inl e \<Rightarrow> ((response_dict, w), Some e)
      | Inr vs \<Rightarrow>
          (case transform_technical_loop E response_dict indicator vs of
             Inl e \<Rightarrow> ((response_dict, w), Some e)
           | Inr value_list \<Rightarrow>
               (case then_stmt (emit (Print ''Transform time'')) (load_technical E value_list) w of
                  (w', r) \<Rightarrow> ((response_dict, w'), r))))"

section \<open>The script\<close>

definition tickers :: "string list" where
  "tickers = [''SPY'', ''XOM'', ''USDX'', ''VIXY'', ''GLD'', ''QQQ'', ''ARKK'', ''IBIT'']"

definition technical_indicators :: "string list" where
  "technical_indicators = [''adx'', ''rsi'', ''percent_b'', ''ema'']"

definition hourly_url :: "string \<Rightarrow> string" where
  "hourly_url ticker =
     ''https://api.twelvedata.com/time_series?apikey=YOUR_API_KEY&interval=30min&symbol=''
       @ ticker @ ''&outputsize=13&date=today''"

definition technical_url :: "'f env \<Rightarrow> string \<Rightarrow> string \<Rightarrow> string" where
  "technical_url E technical_indicator ticker =
     ''https://api.twelvedata.com/'' @ technical_indicator
       @ ''?apikey=YOUR_API_KEY&interval=30min&symbol='' @ ticker
       @ ''&outputsize=13&start_date='' @ today E"

text \<open>Lines 189 to 192. An exception ends the script: nothing catches it.\<close>

fun hourly_stage :: "'f env \<Rightarrow> string list \<Rightarrow> 'f world \<Rightarrow> 'f world \<times> py_error option" where
  "hourly_stage E [] w = (w, None)"
| "hourly_stage E (ticker # ts) w =
     (case extract_url E (hourly_url ticker) w of
        (w1, Inl e) \<Rightarrow> (w1, Some e)
      | (w1, Inr data) \<Rightarrow>
          (case transform_hourly E data w1 of
             ((_, w2), Some e) \<Rightarrow> (w2, Some e)
           | ((_, w2), None) \<Rightarrow> hourly_stage E ts w2))"

text \<open>Lines 199 to 203, the inner loop for one ticker.\<close>

fun indicator_loop ::
  "'f env \<Rightarrow> string \<Rightarrow> string list \<Rightarrow> 'f world \<Rightarrow> 'f world \<times> py_error option" where
  "indicator_loop E ticker [] w = (w, None)"
| "indicator_loop E ticker (technical_indicator # is) w =
     (case extract_url E (technical_url E technical_indicator ticker) w of
        (w1, Inl e) \<Rightarrow> (w1, Some e)
      | (w1, Inr data) \<Rightarrow>
          (case transform_technical E data technical_indicator w1 of
             ((_, w2), Some e) \<Rightarrow> (w2, Some e)
           | ((_, w2), None) \<Rightarrow>
               indicator_loop E ticker is (w2\<lparr>trace := trace w2 @ [Sleep 60]\<rparr>)))"

text \<open>Lines 198 to 203.\<close>

fun technical_stage ::
  "'f env \<Rightarrow> string list \<Rightarrow> string list \<Rightarrow> 'f world \<Rightarrow> 'f world \<times> py_error option" where
  "technical_stage E [] inds w = (w, None)"
| "technical_stage E (ticker # ts) inds w =
     (case indicator_loop E ticker inds w of
        (w', Some e) \<Rightarrow> (w', Some e)
      | (w', None) \<Rightarrow> technical_stage E ts inds w')"

text \<open>Lines 185 to 203, for any two lists; \<open>script\<close> is the run with the lists of the
  source.\<close>

definition run_stages ::
  "'f env \<Rightarrow> string list \<Rightarrow> string list \<Rightarrow> 'f world \<Rightarrow> 'f world \<times> py_error option" where
  "run_stages E ts inds =
     then_stmt (hourly_stage E ts)
    (then_stmt (emit (Sleep 100))
               (technical_stage E ts inds))"

definition script :: "'f env \<Rightarrow> 'f world \<Rightarrow> 'f world \<times> py_error option" where
  "script E = run_stages E tickers technical_indicators"

section \<open>A reference instance of the library\<close>

text \<open>
  One concrete environment, used to run the model on examples. It follows CPython on
  ASCII text:
  \<^item> \<^verbatim>\<open>datetime.strptime(s, "%Y-%m-%d %H:%M:%S")\<close> matches the regular expression that
    \<^verbatim>\<open>_strptime\<close> builds from the format (four digits for the year; one or two digits
    for the month, the day, the hour, the minute and the second, within the ranges of
    the directive; one or more white-space characters where the format has a blank;
    nothing after the seconds) and then builds the \<^verbatim>\<open>datetime\<close>, which rejects the year
    0, a day the month does not have, and the seconds 60 and 61;
  \<^item> \<^verbatim>\<open>int(s)\<close> strips white space and reads a sign and decimal digits, single
    underscores allowed between digits (the digit-count limit of recent versions is
    not part of the instance);
  \<^item> a float is stood for by the decimal numeral it is written as: \<open>Decimal u k\<close> is
    \<open>u / 10 ^ k\<close>. \<^verbatim>\<open>float(s)\<close> reads a sign, digits and a decimal point (the form the
    API sends, as in \<^verbatim>\<open>"470.1"\<close>); exponents, \<^verbatim>\<open>inf\<close> and \<^verbatim>\<open>nan\<close> are not part of the
    instance, and no rounding to binary is done.
\<close>

datatype decimal = Decimal int nat

definition is_digit :: "char \<Rightarrow> bool" where
  "is_digit c = (c \<in> set ''0123456789'')"

definition is_space :: "char \<Rightarrow> bool" where
  "is_space c =
     (c \<in> set [CHR 0x09, CHR 0x0A, CHR 0x0B, CHR 0x0C, CHR 0x0D,
                CHR 0x1C, CHR 0x1D, CHR 0x1E, CHR 0x1F, CHR 0x20])"

definition digit_val :: "char \<Rightarrow> nat" where
  "digit_val c = of_char c - 48"

definition digits_val :: "string \<Rightarrow> nat" where
  "digits_val ds = foldl (\<lambda>n c. 10 * n + digit_val c) 0 ds"

definition lit :: "char \<Rightarrow> string \<Rightarrow> string option" where
  "lit c s = (case s of [] \<Rightarrow> None | x # r \<Rightarrow> if x = c then Some r else None)"

definition year_field :: "string \<Rightarrow> (nat \<times> string) option" where
  "year_field s =
     (if length (take 4 s) = 4 \<and> list_all is_digit (take 4 s)
      then Some (digits_val (take 4 s), drop 4 s) else None)"

text \<open>A directive of one or two digits: a single digit from \<open>lo1\<close> up, or two digits
  that read as a number from \<open>lo2\<close> to \<open>hi2\<close>.\<close>

definition num_field :: "nat \<Rightarrow> nat \<Rightarrow> nat \<Rightarrow> string \<Rightarrow> (nat \<times> string) option" where
  "num_field lo1 lo2 hi2 s =
     (let ds = takeWhile is_digit s; n = digits_val ds in
      if (length ds = 1 \<and> lo1 \<le> n) \<or> (length ds = 2 \<and> lo2 \<le> n \<and> n \<le> hi2)
      then Some (n, dropWhile is_digit s) else None)"

text \<open>The day directive also takes a blank followed by one digit from 1 to 9.\<close>

definition day_field :: "string \<Rightarrow> (nat \<times> string) option" where
  "day_field s =
     (case s of
        c # d # r \<Rightarrow>
          if c = CHR '' '' then
            (if is_digit d \<and> d \<noteq> CHR ''0'' then Some (digit_val d, r) else None)
          else num_field 1 1 31 s
      | _ \<Rightarrow> num_field 1 1 31 s)"

definition spaces1 :: "string \<Rightarrow> string option" where
  "spaces1 s = (if takeWhile is_space s = [] then None else Some (dropWhile is_space s))"

definition leap_year :: "nat \<Rightarrow> bool" where
  "leap_year y = (y mod 4 = 0 \<and> (y mod 100 \<noteq> 0 \<or> y mod 400 = 0))"

definition days_in_month :: "nat \<Rightarrow> nat \<Rightarrow> nat" where
  "days_in_month y m =
     (if m = 2 then (if leap_year y then 29 else 28)
      else if m \<in> {4, 6, 9, 11} then 30 else 31)"

definition cpython_strptime_str :: "string \<Rightarrow> datetime option" where
  "cpython_strptime_str s =
     Option.bind (year_field s) (\<lambda>(Y, s1).
     Option.bind (lit CHR ''-'' s1) (\<lambda>s2.
     Option.bind (num_field 1 1 12 s2) (\<lambda>(m, s3).
     Option.bind (lit CHR ''-'' s3) (\<lambda>s4.
     Option.bind (day_field s4) (\<lambda>(d, s5).
     Option.bind (spaces1 s5) (\<lambda>s6.
     Option.bind (num_field 0 0 23 s6) (\<lambda>(H, s7).
     Option.bind (lit CHR '':'' s7) (\<lambda>s8.
     Option.bind (num_field 0 0 59 s8) (\<lambda>(M, s9).
     Option.bind (lit CHR '':'' s9) (\<lambda>s10.
     Option.bind (num_field 0 0 61 s10) (\<lambda>(S, s11).
       if s11 = [] \<and> 1 \<le> Y \<and> d \<le> days_in_month Y m \<and> S \<le> 59
       then Some \<lparr>year = Y, month = m, day = d, hour = H, minute = M, second = S\<rparr>
       else None)))))))))))"

definition cpython_strptime :: "decimal pyval \<Rightarrow> py_error + datetime" where
  "cpython_strptime x =
     (case x of
        PStr s \<Rightarrow> (case cpython_strptime_str s of
                     None \<Rightarrow> Inl (ValueError ''strptime'') | Some d \<Rightarrow> Inr d)
      | _ \<Rightarrow> Inl TypeError)"

definition strip :: "string \<Rightarrow> string" where
  "strip s = rev (dropWhile is_space (rev (dropWhile is_space s)))"

text \<open>Digits with single underscores between them.\<close>

fun digit_groups :: "string \<Rightarrow> bool" where
  "digit_groups [] = False"
| "digit_groups [c] = is_digit c"
| "digit_groups (c # d # r) =
     (is_digit c \<and> (if d = CHR ''_'' then digit_groups r else digit_groups (d # r)))"

definition split_sign :: "string \<Rightarrow> bool \<times> string" where
  "split_sign s =
     (case s of
        [] \<Rightarrow> (False, [])
      | c # r \<Rightarrow> if c = CHR ''-'' then (True, r) else if c = CHR ''+'' then (False, r) else (False, s))"

definition cpython_int_str :: "string \<Rightarrow> int option" where
  "cpython_int_str s =
     (case split_sign (strip s) of
        (neg, u) \<Rightarrow>
          if digit_groups u
          then Some ((if neg then - 1 else 1) * int (digits_val (filter is_digit u)))
          else None)"

definition cpython_float_str :: "string \<Rightarrow> decimal option" where
  "cpython_float_str s =
     (case split_sign (strip s) of
        (neg, u) \<Rightarrow>
          (let ip = takeWhile is_digit u; r = dropWhile is_digit u;
               fp = (case r of [] \<Rightarrow> [] | c # t \<Rightarrow> t) in
           if (r = [] \<or> hd r = CHR ''.'') \<and> list_all is_digit fp \<and> ip @ fp \<noteq> []
           then Some (Decimal ((if neg then - 1 else 1) * int (digits_val (ip @ fp))) (length fp))
           else None))"

definition cpython_float :: "decimal pyval \<Rightarrow> py_error + decimal" where
  "cpython_float x =
     (case x of
        PStr s \<Rightarrow> (case cpython_float_str s of
                     None \<Rightarrow> Inl (ValueError ''float'') | Some f \<Rightarrow> Inr f)
      | PInt n \<Rightarrow> Inr (Decimal n 0)
      | PBool b \<Rightarrow> Inr (Decimal (if b then 1 else 0) 0)
      | PFloat f \<Rightarrow> Inr f
      | _ \<Rightarrow> Inl TypeError)"

definition cpython_int :: "decimal pyval \<Rightarrow> py_error + int" where
  "cpython_int x =
     (case x of
        PStr s \<Rightarrow> (case cpython_int_str s of
                     None \<Rightarrow> Inl (ValueError ''int'') | Some n \<Rightarrow> Inr n)
      | PInt n \<Rightarrow> Inr n
      | PBool b \<Rightarrow> Inr (if b then 1 else 0)
      | PFloat f \<Rightarrow> (case f of Decimal u k \<Rightarrow> Inr (sgn u * (\<bar>u\<bar> div 10 ^ k)))
      | _ \<Rightarrow> Inl TypeError)"

text \<open>The instance: the three conversions above, an API that answers every URL with
  the document \<open>doc\<close>, and a database that is up.\<close>

definition cpython :: "decimal pyval \<Rightarrow> decimal env" where
  "cpython doc =
     \<lparr>py_float = cpython_float, py_int = cpython_int, strptime = cpython_strptime,
      http_get = (\<lambda>url. Inr (Response 200 (Inr doc))), db_reachable = True, today = ''2024-01-01''\<rparr>"


section \<open>What the statements are written with\<close>

definition succeeds :: "'e + 'a \<Rightarrow> bool" where
  "succeeds r = (case r of Inl _ \<Rightarrow> False | Inr _ \<Rightarrow> True)"

text \<open>A record of a bar payload is valid when it holds a datetime that the library
  parses under the format and the five fields that the library decodes as numbers.\<close>

definition valid_bar_record :: "'f env \<Rightarrow> 'f pyval \<Rightarrow> bool" where
  "valid_bar_record E v =
     (succeeds (bind_err (py_getitem v ''datetime'') (strptime E)) \<and>
      succeeds (bind_err (py_getitem v ''open'') (py_float E)) \<and>
      succeeds (bind_err (py_getitem v ''high'') (py_float E)) \<and>
      succeeds (bind_err (py_getitem v ''low'') (py_float E)) \<and>
      succeeds (bind_err (py_getitem v ''close'') (py_float E)) \<and>
      succeeds (bind_err (py_getitem v ''volume'') (py_int E)))"

text \<open>The field \<open>k\<close> of the row is the field \<open>k\<close> of the record, decoded by \<open>conv\<close>.\<close>

definition decoded_field ::
  "('f pyval \<Rightarrow> py_error + 'a) \<Rightarrow> ('a \<Rightarrow> 'f pyval) \<Rightarrow> string \<Rightarrow> 'f pyval \<Rightarrow> 'f pyval \<Rightarrow> bool" where
  "decoded_field conv wrap k v row =
     (\<exists>x y. py_getitem v k = Inr x \<and> conv x = Inr y \<and> py_getitem row k = Inr (wrap y))"

definition is_bar_row :: "'f env \<Rightarrow> 'f pyval \<Rightarrow> 'f pyval \<Rightarrow> 'f pyval \<Rightarrow> bool" where
  "is_bar_row E smb v row =
     (py_getitem row ''symbol'' = Inr smb \<and>
      decoded_field (strptime E) PDatetime ''datetime'' v row \<and>
      decoded_field (py_float E) PFloat ''open'' v row \<and>
      decoded_field (py_float E) PFloat ''high'' v row \<and>
      decoded_field (py_float E) PFloat ''low'' v row \<and>
      decoded_field (py_float E) PFloat ''close'' v row \<and>
      decoded_field (py_int E) PInt ''volume'' v row)"

subsection \<open>Example documents\<close>

text \<open>The bar payload of the end-to-end example.\<close>

definition spy_record :: "decimal pyval" where
  "spy_record =
     PDict [(''datetime'', PStr ''2024-01-01 09:30:00''), (''open'', PStr ''470.1''),
            (''high'', PStr ''471.0''), (''low'', PStr ''469.8''),
            (''close'', PStr ''470.5''), (''volume'', PStr ''1000000'')]"

definition spy_payload :: "decimal pyval" where
  "spy_payload =
     PDict [(''meta'', PDict [(''symbol'', PStr ''SPY'')]), (''values'', PList [spy_record])]"

text \<open>A database with no table, no connection open, nothing done yet.\<close>

definition new_world :: "'f world" where
  "new_world = \<lparr>database = Map.empty, session = Map.empty, trace = []\<rparr>"

text \<open>A record of an indicator payload is valid when it holds a datetime that the library
  parses, at least two keys, and under the name of the indicator a value that the
  library decodes as a float.\<close>

definition valid_indicator_record :: "'f env \<Rightarrow> string \<Rightarrow> 'f pyval \<Rightarrow> bool" where
  "valid_indicator_record E indicator v =
     (succeeds (bind_err (py_getitem v ''datetime'') (strptime E)) \<and>
      succeeds (second_key v) \<and>
      succeeds (bind_err (py_getitem v indicator) (py_float E)))"

definition is_indicator_row ::
  "'f env \<Rightarrow> 'f pyval \<Rightarrow> string \<Rightarrow> 'f pyval \<Rightarrow> 'f pyval \<Rightarrow> bool" where
  "is_indicator_row E smb indicator v row =
     (\<exists>kvs xd d x f.
        v = PDict kvs \<and> 2 \<le> length kvs \<and>
        py_getitem v ''datetime'' = Inr xd \<and> strptime E xd = Inr d \<and>
        py_getitem v indicator = Inr x \<and> py_float E x = Inr f \<and>
        row = PDict [(''symbol'', smb), (''datetime'', PDatetime d),
                     (''indicator'', PStr (fst (kvs ! 1))), (''value'', PFloat f)])"

text \<open>The indicator payload of the end-to-end example.\<close>

definition rsi_record :: "decimal pyval" where
  "rsi_record = PDict [(''datetime'', PStr ''2024-01-01 09:30:00''), (''rsi'', PStr ''55.2'')]"

definition rsi_payload :: "decimal pyval" where
  "rsi_payload =
     PDict [(''meta'', PDict [(''symbol'', PStr ''SPY'')]), (''values'', PList [rsi_record])]"

text \<open>A record whose only key is the datetime, after a record that is valid.\<close>

definition lone_datetime_record :: "decimal pyval" where
  "lone_datetime_record = PDict [(''datetime'', PStr ''2024-01-01 09:30:00'')]"

definition lone_datetime_payload :: "decimal pyval" where
  "lone_datetime_payload =
     PDict [(''meta'', PDict [(''symbol'', PStr ''SPY'')]),
            (''values'', PList [rsi_record, lone_datetime_record])]"

text \<open>The exception of looking up the field \<open>k\<close> of a record and decoding it, if any.\<close>

definition check :: "('f pyval \<Rightarrow> py_error + 'a) \<Rightarrow> 'f pyval \<Rightarrow> string \<Rightarrow> py_error option" where
  "check conv v k =
     (case bind_err (py_getitem v k) conv of Inl e \<Rightarrow> Some e | Inr _ \<Rightarrow> None)"

text \<open>The six checks of a bar record, in the order of lines 45 to 50.\<close>

definition bar_checks :: "'f env \<Rightarrow> 'f pyval \<Rightarrow> py_error option list" where
  "bar_checks E v =
     [check (strptime E) v ''datetime'', check (py_float E) v ''open'',
      check (py_float E) v ''high'', check (py_float E) v ''low'',
      check (py_float E) v ''close'', check (py_int E) v ''volume'']"

fun first_error :: "py_error option list \<Rightarrow> py_error option" where
  "first_error [] = None"
| "first_error (None # cs) = first_error cs"
| "first_error (Some e # cs) = Some e"

text \<open>A bar record with a datetime in another format and no \<^verbatim>\<open>open\<close> field.\<close>

definition iso_record :: "decimal pyval" where
  "iso_record =
     PDict [(''datetime'', PStr ''2024-01-01T09:30:00''), (''high'', PStr ''471.0''),
            (''low'', PStr ''469.8''), (''close'', PStr ''470.5''), (''volume'', PStr ''1000000'')]"

definition iso_payload :: "decimal pyval" where
  "iso_payload =
     PDict [(''meta'', PDict [(''symbol'', PStr ''SPY'')]), (''values'', PList [iso_record])]"

text \<open>A bar record whose volume is the string \<^verbatim>\<open>"-5"\<close>.\<close>

definition negative_record :: "decimal pyval" where
  "negative_record =
     PDict [(''datetime'', PStr ''2024-01-01 09:30:00''), (''open'', PStr ''470.1''),
            (''high'', PStr ''471.0''), (''low'', PStr ''469.8''),
            (''close'', PStr ''470.5''), (''volume'', PStr ''-5'')]"

definition negative_payload :: "decimal pyval" where
  "negative_payload =
     PDict [(''meta'', PDict [(''symbol'', PStr ''SPY'')]), (''values'', PList [negative_record])]"

text \<open>The tables in view after a check-then-create of the table \<open>name\<close>.\<close>

definition ensure_table ::
  "string \<Rightarrow> 'f table \<Rightarrow> (string \<rightharpoonup> 'f table) \<Rightarrow> (string \<rightharpoonup> 'f table)" where
  "ensure_table name t tables = (if tables name = None then tables(name \<mapsto> t) else tables)"

text \<open>The table with the rows \<open>xss\<close> added after the ones it has.\<close>

definition add_rows :: "'f pyval list list \<Rightarrow> 'f table \<Rightarrow> 'f table" where
  "add_rows xss t = t\<lparr>table_rows := table_rows t @ xss\<rparr>"

text \<open>
  What a load that returns normally has done, from the world \<open>w\<close> to the world \<open>w'\<close>: one
  connection and one cursor opened, one batch of all the rows, one commit, cursor and
  connection closed, the time printed; and the committed tables are the ones before,
  with the table \<open>name\<close> created if it was not there and the values of all the rows, in
  order, added to it.
\<close>

definition load_succeeded ::
  "string \<Rightarrow> 'f table \<Rightarrow> string list \<Rightarrow> 'f pyval list \<Rightarrow> 'f world \<Rightarrow> 'f world \<Rightarrow> bool" where
  "load_succeeded name t0 ks rows w w' =
     (trace w' = trace w @ [Connect, OpenCursor, ExecuteBatch name (length rows),
                            Commit, CloseCursor, CloseConnection, Print ''Load time''] \<and>
      (\<exists>t xss. ensure_table name t0 (database w) name = Some t \<and>
         mogrify_page ks rows = Inr xss \<and>
         database w' = (ensure_table name t0 (database w))(name \<mapsto> add_rows xss t)))"

text \<open>
  What a load that raises has done: nothing is committed; when the connection was
  refused nothing was opened; otherwise the connection and the cursor were opened and
  the batch was started, and neither a commit nor a close follows.
\<close>

definition load_failed ::
  "'f env \<Rightarrow> string \<Rightarrow> 'f pyval list \<Rightarrow> py_error \<Rightarrow> 'f world \<Rightarrow> 'f world \<Rightarrow> bool" where
  "load_failed E name rows e w w' =
     (database w' = database w \<and>
      (if db_reachable E
       then trace w' = trace w @ [Connect, OpenCursor, ExecuteBatch name (length rows)]
       else trace w' = trace w \<and> e = OperationalError))"

text \<open>The rows of the two end-to-end examples.\<close>

definition spy_row :: "decimal pyval" where
  "spy_row =
     PDict [(''datetime'', PDatetime \<lparr>year = 2024, month = 1, day = 1, hour = 9, minute = 30, second = 0\<rparr>),
            (''open'', PFloat (Decimal 4701 1)), (''high'', PFloat (Decimal 4710 1)),
            (''low'', PFloat (Decimal 4698 1)), (''close'', PFloat (Decimal 4705 1)),
            (''volume'', PInt 1000000), (''symbol'', PStr ''SPY'')]"

definition rsi_row :: "decimal pyval" where
  "rsi_row =
     PDict [(''symbol'', PStr ''SPY''),
            (''datetime'', PDatetime \<lparr>year = 2024, month = 1, day = 1, hour = 9, minute = 30, second = 0\<rparr>),
            (''indicator'', PStr ''rsi''), (''value'', PFloat (Decimal 552 1))]"

text \<open>A database that already has the table of the bars, with a row in it.\<close>

definition stocked_world :: "decimal world" where
  "stocked_world =
     \<lparr>database = [''hourly_data'' \<mapsto> add_rows [[PStr ''SPY'']] hourly_data_table],
      session = [''hourly_data'' \<mapsto> add_rows [[PStr ''SPY'']] hourly_data_table],
      trace = []\<rparr>"

text \<open>No row was inserted from \<open>old\<close> to \<open>new\<close>: a table that was there is as it was, a table
  that is new has no row, and no table is gone.\<close>

definition same_rows :: "(string \<rightharpoonup> 'f table) \<Rightarrow> (string \<rightharpoonup> 'f table) \<Rightarrow> bool" where
  "same_rows old new =
     (\<forall>name. case new name of
        None \<Rightarrow> old name = None
      | Some t \<Rightarrow> (case old name of None \<Rightarrow> table_rows t = [] | Some t' \<Rightarrow> t = t'))"

text \<open>A payload whose values are the empty list.\<close>

definition empty_payload :: "decimal pyval" where
  "empty_payload = PDict [(''values'', PList [])]"

text \<open>
  The steps of the script that the trace shows: a request is a fetch, the time line
  printed after the loop of a transform marks a normalization, a batch sent to a table
  is a store, a sleep is a pause.
\<close>

datatype step = Fetch string | Normalize | Store string | Pause nat

fun step_of :: "event \<Rightarrow> step option" where
  "step_of (HttpGet url) = Some (Fetch url)"
| "step_of (Print label) = (if label = ''Transform time'' then Some Normalize else None)"
| "step_of (ExecuteBatch name n) = Some (Store name)"
| "step_of (Sleep n) = Some (Pause n)"
| "step_of _ = None"

fun steps :: "event list \<Rightarrow> step list" where
  "steps [] = []"
| "steps (e # es) = (case step_of e of None \<Rightarrow> steps es | Some s \<Rightarrow> s # steps es)"

text \<open>
  The plan of the script as the specification words it: for every ticker a fetch, a
  normalization and a store of bars, with no pause; then one pause of 100 seconds; then
  for every ticker and, inside, for every indicator, a fetch, a normalization and a
  store of indicator rows followed by a pause of 60 seconds.
\<close>

definition bar_steps :: "string \<Rightarrow> step list" where
  "bar_steps ticker = [Fetch (hourly_url ticker), Normalize, Store ''hourly_data'']"

definition indicator_steps :: "'f env \<Rightarrow> string \<Rightarrow> string \<Rightarrow> step list" where
  "indicator_steps E ticker technical_indicator =
     [Fetch (technical_url E technical_indicator ticker), Normalize, Store ''technical_data'',
      Pause 60]"

definition schedule :: "'f env \<Rightarrow> string list \<Rightarrow> string list \<Rightarrow> step list" where
  "schedule E ts inds =
     concat (map bar_steps ts) @ [Pause 100] @
     concat (map (\<lambda>ticker. concat (map (indicator_steps E ticker) inds)) ts)"

text \<open>The steps done follow the plan: they are a beginning of it, and all of it when the
  run ended without an exception.\<close>

definition follows :: "step list \<Rightarrow> event list \<Rightarrow> py_error option \<Rightarrow> bool" where
  "follows plan d r =
     ((r = None \<longrightarrow> steps d = plan) \<and> (\<exists>rest. plan = steps d @ rest))"


section \<open>Dicts and statements\<close>

lemma map_of_dict_set: "map_of (dict_set k v kvs) = (map_of kvs)(k \<mapsto> v)"
  by (induction kvs) auto

lemma succeeds_bind_getitem:
  "succeeds (bind_err (py_getitem v k) conv) \<Longrightarrow>
   \<exists>kvs x y. v = PDict kvs \<and> map_of kvs k = Some x \<and> conv x = Inr y"
  by (auto simp: succeeds_def bind_err_def py_getitem_def split: sum.splits pyval.splits option.splits)

lemma hourly_record_ok:
  assumes "meta_symbol rd = Inr smb"
    and "map_of kvs ''datetime'' = Some xd" "strptime E xd = Inr d"
    and "map_of kvs ''open'' = Some xo" "py_float E xo = Inr a"
    and "map_of kvs ''high'' = Some xh" "py_float E xh = Inr b"
    and "map_of kvs ''low'' = Some xl" "py_float E xl = Inr c"
    and "map_of kvs ''close'' = Some xc" "py_float E xc = Inr e"
    and "map_of kvs ''volume'' = Some xv" "py_int E xv = Inr n"
  shows "transform_hourly_record E rd (PDict kvs) =
    (PDict (dict_set ''volume'' (PInt n) (dict_set ''close'' (PFloat e)
      (dict_set ''low'' (PFloat c) (dict_set ''high'' (PFloat b)
      (dict_set ''open'' (PFloat a) (dict_set ''datetime'' (PDatetime d)
      (dict_set ''symbol'' smb kvs))))))), None)"
  using assms
  by (simp add: transform_hourly_record_def then_stmt_def assign_item_def py_setitem_def
      py_getitem_def bind_err_def as_datetime_def as_float_def as_int_def map_of_dict_set)

lemma hourly_record_valid:
  assumes "meta_symbol rd = Inr smb" "valid_bar_record E v"
  shows "\<exists>row. transform_hourly_record E rd v = (row, None) \<and> is_bar_row E smb v row"
proof -
  from assms(2) obtain kvs xd d where v: "v = PDict kvs"
    and d: "map_of kvs ''datetime'' = Some xd" "strptime E xd = Inr d"
    unfolding valid_bar_record_def by (blast dest: succeeds_bind_getitem)
  from assms(2) v obtain xo a where a: "map_of kvs ''open'' = Some xo" "py_float E xo = Inr a"
    unfolding valid_bar_record_def by (fastforce dest: succeeds_bind_getitem)
  from assms(2) v obtain xh b where b: "map_of kvs ''high'' = Some xh" "py_float E xh = Inr b"
    unfolding valid_bar_record_def by (fastforce dest: succeeds_bind_getitem)
  from assms(2) v obtain xl c where c: "map_of kvs ''low'' = Some xl" "py_float E xl = Inr c"
    unfolding valid_bar_record_def by (fastforce dest: succeeds_bind_getitem)
  from assms(2) v obtain xc e where e: "map_of kvs ''close'' = Some xc" "py_float E xc = Inr e"
    unfolding valid_bar_record_def by (fastforce dest: succeeds_bind_getitem)
  from assms(2) v obtain xv n where n: "map_of kvs ''volume'' = Some xv" "py_int E xv = Inr n"
    unfolding valid_bar_record_def by (fastforce dest: succeeds_bind_getitem)
  have "is_bar_row E smb (PDict kvs) (PDict (dict_set ''volume'' (PInt n) (dict_set ''close'' (PFloat e)
      (dict_set ''low'' (PFloat c) (dict_set ''high'' (PFloat b)
      (dict_set ''open'' (PFloat a) (dict_set ''datetime'' (PDatetime d)
      (dict_set ''symbol'' smb kvs))))))))"
    using d a b c e n
    by (simp add: is_bar_row_def decoded_field_def py_getitem_def map_of_dict_set)
  with hourly_record_ok[OF assms(1) d a b c e n] v show ?thesis by simp
qed

lemma hourly_loop_valid:
  assumes "meta_symbol rd = Inr smb" "\<forall>v \<in> set vs. valid_bar_record E v"
  shows "\<exists>rows. transform_hourly_loop E rd vs = (rows, None) \<and> length rows = length vs \<and>
           (\<forall>i < length vs. is_bar_row E smb (vs ! i) (rows ! i))"
  using assms(2)
proof (induction vs)
  case Nil
  then show ?case by simp
next
  case (Cons v vs)
  from Cons.prems obtain row where row: "transform_hourly_record E rd v = (row, None)"
    "is_bar_row E smb v row"
    using hourly_record_valid[OF assms(1)] by fastforce
  from Cons obtain rows where rows: "transform_hourly_loop E rd vs = (rows, None)"
    "length rows = length vs" "\<forall>i < length vs. is_bar_row E smb (vs ! i) (rows ! i)"
    by auto
  have "\<forall>i < length (v # vs). is_bar_row E smb ((v # vs) ! i) ((row # rows) ! i)"
    using row(2) rows(3) by (auto simp: nth_Cons split: nat.splits)
  with row rows show ?case by simp
qed



section \<open>The reference instance on the examples\<close>

lemmas cpython_defs = cpython_strptime_def cpython_strptime_str_def year_field_def num_field_def
  day_field_def spaces1_def lit_def days_in_month_def leap_year_def
  cpython_int_def cpython_int_str_def cpython_float_def cpython_float_str_def
  strip_def split_sign_def is_space_def is_digit_def digits_val_def digit_val_def
lemma ex_strptime: "cpython_strptime (PStr ''2024-01-01 09:30:00'') =
   Inr \<lparr>year = 2024, month = 1, day = 1, hour = 9, minute = 30, second = 0\<rparr>"
  by (simp add: cpython_defs)
lemma ex_float:
  "cpython_float (PStr ''470.1'') = Inr (Decimal 4701 1)"
  "cpython_float (PStr ''471.0'') = Inr (Decimal 4710 1)"
  "cpython_float (PStr ''469.8'') = Inr (Decimal 4698 1)"
  "cpython_float (PStr ''470.5'') = Inr (Decimal 4705 1)"
  by (simp_all add: cpython_defs)
lemma ex_int: "cpython_int (PStr ''1000000'') = Inr 1000000"
  by (simp add: cpython_defs)
text \<open>The parser of the library takes fields without their leading zero and more than one
  blank; it rejects a day that the month does not have.\<close>

lemma ex_strptime_unpadded:
  "cpython_strptime (PStr ''2024-1-1  9:30:0'') =
     Inr \<lparr>year = 2024, month = 1, day = 1, hour = 9, minute = 30, second = 0\<rparr>"
  "cpython_strptime (PStr ''2024-02-30 09:30:00'') = Inl (ValueError ''strptime'')"
  by (simp_all add: cpython_defs)

lemmas ex = ex_strptime ex_float ex_int
lemma h3: "valid_bar_record (cpython PNone) spy_record"
  by (simp add: valid_bar_record_def succeeds_def bind_err_def py_getitem_def spy_record_def cpython_def ex)
lemma spy_rows:
  "transform_hourly_loop (cpython PNone) spy_payload [spy_record] =
     ([PDict [(''datetime'', PDatetime \<lparr>year = 2024, month = 1, day = 1, hour = 9, minute = 30, second = 0\<rparr>),
              (''open'', PFloat (Decimal 4701 1)), (''high'', PFloat (Decimal 4710 1)),
              (''low'', PFloat (Decimal 4698 1)), (''close'', PFloat (Decimal 4705 1)),
              (''volume'', PInt 1000000), (''symbol'', PStr ''SPY'')]], None)"
  by (simp add: transform_hourly_record_def then_stmt_def assign_item_def py_setitem_def
      py_getitem_def bind_err_def as_datetime_def as_float_def as_int_def meta_symbol_def
      spy_payload_def spy_record_def cpython_def ex)


section \<open>The rows of transform\_hourly\<close>

text \<open>
  Claim C1. For every valid bar payload (a metadata section with a symbol, a list of
  records that each hold a datetime the library parses under the format and open, high,
  low, close and volume fields the library decodes), the loop of \<open>transform_hourly\<close>
  ends without an exception with one row per record, in the order of the records; in
  the row of a record the symbol is the symbol of the metadata, the datetime is the
  parsed datetime of the record, open, high, low and close are the decoded floats and
  volume is the decoded integer; and these rows are what \<open>transform_hourly\<close> passes to
  \<open>load_hourly\<close>.
\<close>

theorem transform_hourly_rows:
  assumes "py_getitem response_dict ''values'' = Inr (PList vs)"
    and "meta_symbol response_dict = Inr smb"
    and "\<forall>v \<in> set vs. valid_bar_record E v"
  shows "\<exists>rows. transform_hourly_loop E response_dict vs = (rows, None) \<and>
           length rows = length vs \<and>
           (\<forall>i < length vs. is_bar_row E smb (vs ! i) (rows ! i)) \<and>
           transform_hourly E response_dict w =
             (case then_stmt (emit (Print ''Transform time'')) (load_hourly E rows) w of
                (w', r) \<Rightarrow> ((store_values response_dict rows, w'), r))"
proof -
  from hourly_loop_valid[OF assms(2,3)] obtain rows where
    rows: "transform_hourly_loop E response_dict vs = (rows, None)" "length rows = length vs"
      "\<forall>i < length vs. is_bar_row E smb (vs ! i) (rows ! i)"
    by blast
  have "transform_hourly E response_dict w =
      (case then_stmt (emit (Print ''Transform time'')) (load_hourly E rows) w of
         (w', r) \<Rightarrow> ((store_values response_dict rows, w'), r))"
    using assms(1) rows(1) by (simp add: transform_hourly_def bind_err_def py_iter_def)
  with rows show ?thesis by blast
qed



text \<open>The end-to-end example: the payload for SPY gives the one row of the example.\<close>

theorem transform_hourly_rows_witness:
  "py_getitem spy_payload ''values'' = Inr (PList [spy_record]) \<and>
   meta_symbol spy_payload = Inr (PStr ''SPY'') \<and>
   valid_bar_record (cpython PNone) spy_record \<and>
   (\<exists>rows. transform_hourly_loop (cpython PNone) spy_payload [spy_record] = (rows, None) \<and>
      length rows = 1 \<and>
      is_bar_row (cpython PNone) (PStr ''SPY'') spy_record (rows ! 0) \<and>
      transform_hourly (cpython PNone) spy_payload new_world =
        (case then_stmt (emit (Print ''Transform time'')) (load_hourly (cpython PNone) rows) new_world of
           (w', r) \<Rightarrow> ((store_values spy_payload rows, w'), r)))"
proof -
  have h1: "py_getitem spy_payload ''values'' = Inr (PList [spy_record])"
    by (simp add: spy_payload_def py_getitem_def)
  have h2: "meta_symbol spy_payload = Inr (PStr ''SPY'')"
    by (simp add: spy_payload_def meta_symbol_def bind_err_def py_getitem_def)
  note h3 = h3
  have h3': "\<forall>v \<in> set [spy_record]. valid_bar_record (cpython PNone) v" using h3 by simp
  show ?thesis
    using transform_hourly_rows[OF h1 h2 h3', of new_world] h1 h2 h3 by simp
qed


section \<open>The rows of transform\_technical\<close>

lemma second_key_PDict:
  "second_key (PDict kvs) = (if 2 \<le> length kvs then Inr (PStr (fst (kvs ! 1))) else Inl IndexError)"
  by (cases kvs; cases "tl kvs") (auto simp: second_key_def)

lemma succeeds_second_key:
  "succeeds (second_key v) \<Longrightarrow> \<exists>kvs. v = PDict kvs \<and> 2 \<le> length kvs"
  by (cases v) (simp_all add: second_key_PDict succeeds_def split: if_splits, simp_all add: second_key_def)

lemma succeeds_Inr_iff: "succeeds r = (\<exists>x. r = Inr x)"
  by (cases r) (auto simp: succeeds_def)

lemma technical_record_valid:
  assumes "meta_symbol rd = Inr smb" "valid_indicator_record E indicator v"
  shows "\<exists>row. transform_technical_record E rd indicator v = Inr row \<and>
           is_indicator_row E smb indicator v row"
proof -
  from assms(2) obtain kvs where v: "v = PDict kvs" and len: "2 \<le> length kvs"
    unfolding valid_indicator_record_def by (blast dest: succeeds_second_key)
  from assms(2) v obtain xd d where d: "map_of kvs ''datetime'' = Some xd" "strptime E xd = Inr d"
    unfolding valid_indicator_record_def by (fastforce dest: succeeds_bind_getitem)
  from assms(2) v obtain x f where f: "map_of kvs indicator = Some x" "py_float E x = Inr f"
    unfolding valid_indicator_record_def by (fastforce dest: succeeds_bind_getitem)
  have "transform_technical_record E rd indicator v =
      Inr (PDict [(''symbol'', smb), (''datetime'', PDatetime d),
                  (''indicator'', PStr (fst (kvs ! 1))), (''value'', PFloat f)])"
    using assms(1) v len d f
    by (simp add: transform_technical_record_def bind_err_def py_getitem_def as_datetime_def
        as_float_def second_key_PDict)
  moreover have "is_indicator_row E smb indicator v
      (PDict [(''symbol'', smb), (''datetime'', PDatetime d),
              (''indicator'', PStr (fst (kvs ! 1))), (''value'', PFloat f)])"
    using v len d f by (simp add: is_indicator_row_def py_getitem_def)
  ultimately show ?thesis by simp
qed

lemma technical_loop_valid:
  assumes "meta_symbol rd = Inr smb" "\<forall>v \<in> set vs. valid_indicator_record E indicator v"
  shows "\<exists>rows. transform_technical_loop E rd indicator vs = Inr rows \<and>
           length rows = length vs \<and>
           (\<forall>i < length vs. is_indicator_row E smb indicator (vs ! i) (rows ! i))"
  using assms(2)
proof (induction vs)
  case Nil
  then show ?case by simp
next
  case (Cons v vs)
  from Cons.prems obtain row where row: "transform_technical_record E rd indicator v = Inr row"
    "is_indicator_row E smb indicator v row"
    using technical_record_valid[OF assms(1)] by fastforce
  from Cons obtain rows where rows: "transform_technical_loop E rd indicator vs = Inr rows"
    "length rows = length vs"
    "\<forall>i < length vs. is_indicator_row E smb indicator (vs ! i) (rows ! i)"
    by auto
  have "\<forall>i < length (v # vs). is_indicator_row E smb indicator ((v # vs) ! i) ((row # rows) ! i)"
    using row(2) rows(3) by (auto simp: nth_Cons split: nat.splits)
  with row rows show ?case by simp
qed

text \<open>
  Claim C2. For every valid indicator payload and every indicator name, the loop of
  \<open>transform_technical\<close> ends without an exception with one row per record, in the
  order of the records. The row of a record holds, in this order, the symbol of the
  metadata, the parsed datetime of the record, as indicator the second key of the
  record (whatever the indicator name passed in), and as value the float decoded from
  the entry of the record under the indicator name. These rows are what
  \<open>transform_technical\<close> passes to \<open>load_technical\<close>.
\<close>

theorem transform_technical_rows:
  assumes "py_getitem response_dict ''values'' = Inr (PList vs)"
    and "meta_symbol response_dict = Inr smb"
    and "\<forall>v \<in> set vs. valid_indicator_record E indicator v"
  shows "\<exists>rows. transform_technical_loop E response_dict indicator vs = Inr rows \<and>
           length rows = length vs \<and>
           (\<forall>i < length vs. is_indicator_row E smb indicator (vs ! i) (rows ! i)) \<and>
           transform_technical E response_dict indicator w =
             (case then_stmt (emit (Print ''Transform time'')) (load_technical E rows) w of
                (w', r) \<Rightarrow> ((response_dict, w'), r))"
proof -
  from technical_loop_valid[OF assms(2,3)] obtain rows where
    rows: "transform_technical_loop E response_dict indicator vs = Inr rows"
      "length rows = length vs"
      "\<forall>i < length vs. is_indicator_row E smb indicator (vs ! i) (rows ! i)"
    by blast
  have "transform_technical E response_dict indicator w =
      (case then_stmt (emit (Print ''Transform time'')) (load_technical E rows) w of
         (w', r) \<Rightarrow> ((response_dict, w'), r))"
    using assms(1) rows(1) by (simp add: transform_technical_def bind_err_def py_iter_def)
  with rows show ?thesis by blast
qed

lemma ex_float_rsi: "cpython_float (PStr ''55.2'') = Inr (Decimal 552 1)"
  by (simp add: cpython_defs)

lemma rsi_valid: "valid_indicator_record (cpython PNone) ''rsi'' rsi_record"
  by (simp add: valid_indicator_record_def succeeds_def bind_err_def py_getitem_def
      second_key_def rsi_record_def cpython_def ex ex_float_rsi)

lemma rsi_rows:
  "transform_technical_loop (cpython PNone) rsi_payload ''rsi'' [rsi_record] =
     Inr [PDict [(''symbol'', PStr ''SPY''),
                 (''datetime'', PDatetime \<lparr>year = 2024, month = 1, day = 1, hour = 9, minute = 30, second = 0\<rparr>),
                 (''indicator'', PStr ''rsi''), (''value'', PFloat (Decimal 552 1))]]"
  by (simp add: transform_technical_record_def bind_err_def py_getitem_def as_datetime_def
      as_float_def second_key_def meta_symbol_def rsi_payload_def rsi_record_def cpython_def
      ex ex_float_rsi)

text \<open>The end-to-end example for the indicator \<^verbatim>\<open>rsi\<close>.\<close>

theorem transform_technical_rows_witness:
  "py_getitem rsi_payload ''values'' = Inr (PList [rsi_record]) \<and>
   meta_symbol rsi_payload = Inr (PStr ''SPY'') \<and>
   valid_indicator_record (cpython PNone) ''rsi'' rsi_record \<and>
   (\<exists>rows. transform_technical_loop (cpython PNone) rsi_payload ''rsi'' [rsi_record] = Inr rows \<and>
      length rows = 1 \<and>
      is_indicator_row (cpython PNone) (PStr ''SPY'') ''rsi'' rsi_record (rows ! 0) \<and>
      transform_technical (cpython PNone) rsi_payload ''rsi'' new_world =
        (case then_stmt (emit (Print ''Transform time'')) (load_technical (cpython PNone) rows) new_world of
           (w', r) \<Rightarrow> ((rsi_payload, w'), r)))"
proof -
  have h1: "py_getitem rsi_payload ''values'' = Inr (PList [rsi_record])"
    by (simp add: rsi_payload_def py_getitem_def)
  have h2: "meta_symbol rsi_payload = Inr (PStr ''SPY'')"
    by (simp add: rsi_payload_def meta_symbol_def bind_err_def py_getitem_def)
  have h3: "\<forall>v \<in> set [rsi_record]. valid_indicator_record (cpython PNone) ''rsi'' v"
    using rsi_valid by simp
  show ?thesis
    using transform_technical_rows[OF h1 h2 h3, of new_world] h1 h2 rsi_valid by simp
qed

section \<open>Records with fewer than two keys\<close>

lemma technical_record_success:
  assumes "transform_technical_record E rd indicator v = Inr row"
  shows "\<exists>kvs. v = PDict kvs \<and> 2 \<le> length kvs"
proof -
  from assms have "succeeds (second_key v)"
    by (auto simp: transform_technical_record_def bind_err_def succeeds_def split: sum.splits)
  then show ?thesis by (rule succeeds_second_key)
qed

lemma technical_loop_success:
  "transform_technical_loop E rd indicator vs = Inr rows \<Longrightarrow>
   \<forall>v \<in> set vs. \<exists>kvs. v = PDict kvs \<and> 2 \<le> length kvs"
proof (induction vs arbitrary: rows)
  case Nil
  then show ?case by simp
next
  case (Cons v vs)
  then show ?case
    by (auto split: sum.splits dest: technical_record_success)
qed

lemma technical_loop_append:
  assumes "meta_symbol rd = Inr smb" "\<forall>v \<in> set pre. valid_indicator_record E indicator v"
    and "transform_technical_record E rd indicator v = Inl e"
  shows "transform_technical_loop E rd indicator (pre @ v # post) = Inl e"
  using assms(2)
proof (induction pre)
  case Nil
  then show ?case using assms(3) by simp
next
  case (Cons p pre)
  from Cons.prems obtain row where "transform_technical_record E rd indicator p = Inr row"
    using technical_record_valid[OF assms(1)] by fastforce
  with Cons show ?case by simp
qed

lemma technical_record_short:
  assumes "length kvs < 2" "meta_symbol rd = Inr smb"
    and "succeeds (bind_err (py_getitem (PDict kvs) ''datetime'') (strptime E))"
  shows "transform_technical_record E rd indicator (PDict kvs) = Inl IndexError"
  using assms
  by (auto simp: transform_technical_record_def bind_err_def as_datetime_def succeeds_def
      second_key_PDict split: sum.splits)

text \<open>
  Claim C10. \<open>transform_technical\<close> returns normally only when every record has at
  least two keys. For a record with fewer than two keys, taking the second key raises
  \<^verbatim>\<open>IndexError\<close>; the loop over a payload that contains such a record never yields
  rows; and when the steps before it succeed (the symbol is there, the records before
  it are valid, the datetime of the record is there and parses) the exception of the
  whole call is this \<^verbatim>\<open>IndexError\<close>, whatever the entry under the indicator name is.
\<close>

theorem transform_technical_needs_two_keys:
  assumes "length kvs < 2"
  shows "second_key (PDict kvs) = Inl IndexError \<and>
         (\<forall>rows. transform_technical_loop E response_dict indicator (pre @ PDict kvs # post) \<noteq> Inr rows) \<and>
         (py_getitem response_dict ''values'' = Inr (PList (pre @ PDict kvs # post)) \<and>
          meta_symbol response_dict = Inr smb \<and>
          (\<forall>v \<in> set pre. valid_indicator_record E indicator v) \<and>
          succeeds (bind_err (py_getitem (PDict kvs) ''datetime'') (strptime E)) \<longrightarrow>
            transform_technical_loop E response_dict indicator (pre @ PDict kvs # post) = Inl IndexError \<and>
            transform_technical E response_dict indicator w = ((response_dict, w), Some IndexError))"
proof -
  have a: "second_key (PDict kvs) = Inl IndexError"
    using assms by (simp add: second_key_PDict)
  have b: "\<forall>rows. transform_technical_loop E response_dict indicator (pre @ PDict kvs # post) \<noteq> Inr rows"
  proof (intro allI notI)
    fix rows
    assume "transform_technical_loop E response_dict indicator (pre @ PDict kvs # post) = Inr rows"
    from technical_loop_success[OF this] assms show False by auto
  qed
  have c: "transform_technical_loop E response_dict indicator (pre @ PDict kvs # post) = Inl IndexError \<and>
      transform_technical E response_dict indicator w = ((response_dict, w), Some IndexError)"
    if h: "py_getitem response_dict ''values'' = Inr (PList (pre @ PDict kvs # post))"
      "meta_symbol response_dict = Inr smb"
      "\<forall>v \<in> set pre. valid_indicator_record E indicator v"
      "succeeds (bind_err (py_getitem (PDict kvs) ''datetime'') (strptime E))"
  proof -
    have l: "transform_technical_loop E response_dict indicator (pre @ PDict kvs # post) = Inl IndexError"
      using technical_loop_append[OF h(2,3) technical_record_short[OF assms h(2) h(4)]] .
    then show ?thesis
      using h(1) by (simp add: transform_technical_def bind_err_def py_iter_def)
  qed
  from a b c show ?thesis by blast
qed

text \<open>A payload whose second record holds only a datetime.\<close>

theorem transform_technical_needs_two_keys_witness:
  "length [(''datetime'', PStr ''2024-01-01 09:30:00'' :: decimal pyval)] < 2 \<and>
   py_getitem lone_datetime_payload ''values'' = Inr (PList [rsi_record, lone_datetime_record]) \<and>
   meta_symbol lone_datetime_payload = Inr (PStr ''SPY'') \<and>
   valid_indicator_record (cpython PNone) ''rsi'' rsi_record \<and>
   succeeds (bind_err (py_getitem lone_datetime_record ''datetime'') (strptime (cpython PNone))) \<and>
   second_key lone_datetime_record = Inl IndexError \<and>
   transform_technical_loop (cpython PNone) lone_datetime_payload ''rsi''
     [rsi_record, lone_datetime_record] = Inl IndexError \<and>
   transform_technical (cpython PNone) lone_datetime_payload ''rsi'' new_world =
     ((lone_datetime_payload, new_world), Some IndexError)"
proof -
  have h0: "length [(''datetime'', PStr ''2024-01-01 09:30:00'' :: decimal pyval)] < 2" by simp
  have h1: "py_getitem lone_datetime_payload ''values'' =
      Inr (PList ([rsi_record] @ PDict [(''datetime'', PStr ''2024-01-01 09:30:00'')] # []))"
    by (simp add: lone_datetime_payload_def lone_datetime_record_def py_getitem_def)
  have h2: "meta_symbol lone_datetime_payload = Inr (PStr ''SPY'')"
    by (simp add: lone_datetime_payload_def meta_symbol_def bind_err_def py_getitem_def)
  have h3: "\<forall>v \<in> set [rsi_record]. valid_indicator_record (cpython PNone) ''rsi'' v"
    using rsi_valid by simp
  have h4: "succeeds (bind_err (py_getitem (PDict [(''datetime'', PStr ''2024-01-01 09:30:00'')]) ''datetime'')
      (strptime (cpython PNone)))"
    by (simp add: succeeds_def bind_err_def py_getitem_def cpython_def ex)
  show ?thesis
    using transform_technical_needs_two_keys[OF h0, where E = "cpython PNone"
        and response_dict = lone_datetime_payload and indicator = "''rsi''"
        and pre = "[rsi_record]" and post = "[]" and smb = "PStr ''SPY''" and w = new_world]
      h1 h2 h3 h4 rsi_valid
    by (simp add: lone_datetime_record_def)
qed


section \<open>The order of the checks in transform\_hourly\<close>

lemma assign_item_dict:
  "assign_item k (\<lambda>v. bind_err (py_getitem v k') conv) (PDict kvs) =
     (case bind_err (py_getitem (PDict kvs) k') conv of
        Inl e \<Rightarrow> (PDict kvs, Some e)
      | Inr x \<Rightarrow> (PDict (dict_set k x kvs), None))"
  by (simp add: assign_item_def py_setitem_def split: sum.splits)

lemma getitem_dict_set:
  "py_getitem (PDict (dict_set k x kvs)) k' =
     (if k' = k then Inr x else py_getitem (PDict kvs) k')"
  by (simp add: py_getitem_def map_of_dict_set)

lemma check_as:
  "check (strptime E) v k = (case bind_err (py_getitem v k) (as_datetime E) of Inl e \<Rightarrow> Some e | Inr _ \<Rightarrow> None)"
  "check (py_float E) v k = (case bind_err (py_getitem v k) (as_float E) of Inl e \<Rightarrow> Some e | Inr _ \<Rightarrow> None)"
  "check (py_int E) v k = (case bind_err (py_getitem v k) (as_int E) of Inl e \<Rightarrow> Some e | Inr _ \<Rightarrow> None)"
  by (auto simp: check_def bind_err_def as_datetime_def as_float_def as_int_def split: sum.splits)

lemma hourly_record_first_error:
  assumes "meta_symbol rd = Inr smb"
  shows "snd (transform_hourly_record E rd (PDict kvs)) = first_error (bar_checks E (PDict kvs))"
  unfolding transform_hourly_record_def bar_checks_def check_as
  apply (subst then_stmt_def)
  apply (simp add: assign_item_def[of "''symbol''"] assms py_setitem_def)
  apply (subst then_stmt_def)
  apply (simp add: assign_item_dict getitem_dict_set)
  apply (cases "bind_err (py_getitem (PDict kvs) ''datetime'') (as_datetime E)"; simp)
  apply (subst then_stmt_def)
  apply (simp add: assign_item_dict getitem_dict_set)
  apply (cases "bind_err (py_getitem (PDict kvs) ''open'') (as_float E)"; simp)
  apply (subst then_stmt_def)
  apply (simp add: assign_item_dict getitem_dict_set)
  apply (cases "bind_err (py_getitem (PDict kvs) ''high'') (as_float E)"; simp)
  apply (subst then_stmt_def)
  apply (simp add: assign_item_dict getitem_dict_set)
  apply (cases "bind_err (py_getitem (PDict kvs) ''low'') (as_float E)"; simp)
  apply (subst then_stmt_def)
  apply (simp add: assign_item_dict getitem_dict_set)
  apply (cases "bind_err (py_getitem (PDict kvs) ''close'') (as_float E)"; simp)
  apply (cases "bind_err (py_getitem (PDict kvs) ''volume'') (as_int E)";
      simp add: assign_item_dict getitem_dict_set)
  done

lemma check_None_iff: "(check conv v k = None) = succeeds (bind_err (py_getitem v k) conv)"
  by (simp add: check_def succeeds_def split: sum.splits)

lemma first_error_None_iff: "(first_error cs = None) = (\<forall>c \<in> set cs. c = None)"
  by (induction cs rule: first_error.induct) auto

lemma bar_checks_valid: "(first_error (bar_checks E v) = None) = valid_bar_record E v"
  by (simp add: first_error_None_iff bar_checks_def check_None_iff valid_bar_record_def)

lemma then_stmt_success:
  "then_stmt s1 s2 v = (r, None) \<Longrightarrow> snd (s1 v) = None"
  by (auto simp: then_stmt_def split: prod.splits option.splits)

lemma hourly_record_success:
  assumes "transform_hourly_record E rd v = (row, None)"
  shows "\<exists>smb. meta_symbol rd = Inr smb \<and> valid_bar_record E v \<and> is_bar_row E smb v row"
proof -
  have "snd (assign_item ''symbol'' (\<lambda>_. meta_symbol rd) v) = None"
    using assms unfolding transform_hourly_record_def
    by (rule then_stmt_success)
  then obtain smb kvs where smb: "meta_symbol rd = Inr smb" and v: "v = PDict kvs"
    by (cases v) (auto simp: assign_item_def py_setitem_def split: sum.splits)
  from hourly_record_first_error[OF smb, of E kvs] assms v
  have "first_error (bar_checks E v) = None" by simp
  then have valid: "valid_bar_record E v"
    by (simp add: bar_checks_valid)
  from hourly_record_valid[OF smb valid] assms
  have "is_bar_row E smb v row" by auto
  with smb valid show ?thesis by blast
qed

lemma hourly_loop_success:
  "transform_hourly_loop E rd vs = (rows, None) \<Longrightarrow>
   length rows = length vs \<and>
   (\<forall>i < length vs. \<exists>smb. is_bar_row E smb (vs ! i) (rows ! i))"
proof (induction vs arbitrary: rows)
  case Nil
  then show ?case by simp
next
  case (Cons v vs)
  from Cons.prems obtain row rows' where
    row: "transform_hourly_record E rd v = (row, None)"
    and rest: "transform_hourly_loop E rd vs = (rows', None)"
    and rows: "rows = row # rows'"
    by (auto split: prod.splits option.splits)
  from hourly_record_success[OF row] obtain smb where "is_bar_row E smb v row" by blast
  with Cons.IH[OF rest] rows show ?case
    by (auto simp: nth_Cons split: nat.splits)
qed

text \<open>
  Claim C4, as the code has it. For a record that is a dict, in a payload whose metadata
  holds the symbol, the body of the loop makes six checks in the order datetime, open,
  high, low, close, volume and raises the exception of the first that fails: the error
  of \<^verbatim>\<open>strptime\<close> whenever the datetime is rejected, whatever the numeric fields are;
  otherwise the error of the first numeric field that is missing or that the library
  does not decode. It raises nothing exactly when the record is valid.
\<close>

theorem transform_hourly_failure_order:
  assumes "meta_symbol response_dict = Inr smb"
  shows "snd (transform_hourly_record E response_dict (PDict kvs)) =
           first_error (bar_checks E (PDict kvs)) \<and>
         (\<forall>e. check (strptime E) (PDict kvs) ''datetime'' = Some e \<longrightarrow>
            snd (transform_hourly_record E response_dict (PDict kvs)) = Some e) \<and>
         (check (strptime E) (PDict kvs) ''datetime'' = None \<longrightarrow>
            snd (transform_hourly_record E response_dict (PDict kvs)) =
              first_error [check (py_float E) (PDict kvs) ''open'',
                check (py_float E) (PDict kvs) ''high'', check (py_float E) (PDict kvs) ''low'',
                check (py_float E) (PDict kvs) ''close'', check (py_int E) (PDict kvs) ''volume'']) \<and>
         ((snd (transform_hourly_record E response_dict (PDict kvs)) = None) =
            valid_bar_record E (PDict kvs))"
  using hourly_record_first_error[OF assms, of E kvs] bar_checks_valid[of E "PDict kvs"]
  by (auto simp: bar_checks_def)

lemma ex_strptime_iso: "cpython_strptime (PStr ''2024-01-01T09:30:00'') = Inl (ValueError ''strptime'')"
  by (simp add: cpython_defs)

text \<open>A record with a rejected datetime and no \<^verbatim>\<open>open\<close> field: the field is missing, and
  the exception is the one of \<^verbatim>\<open>strptime\<close>, not the one of the missing field.\<close>

theorem transform_hourly_failure_order_counterexample:
  "py_getitem iso_record ''open'' = Inl (KeyError ''open'') \<and>
   snd (transform_hourly_record (cpython PNone) iso_payload iso_record) =
     Some (ValueError ''strptime'')"
  by (simp add: transform_hourly_record_def then_stmt_def assign_item_def py_setitem_def
      py_getitem_def bind_err_def as_datetime_def meta_symbol_def
      iso_payload_def iso_record_def cpython_def ex_strptime_iso)

text \<open>The same record, through the theorem.\<close>

theorem transform_hourly_failure_order_witness:
  "meta_symbol iso_payload = Inr (PStr ''SPY'') \<and>
   check (strptime (cpython PNone)) iso_record ''datetime'' = Some (ValueError ''strptime'') \<and>
   snd (transform_hourly_record (cpython PNone) iso_payload iso_record) =
     Some (ValueError ''strptime'') \<and>
   \<not> valid_bar_record (cpython PNone) iso_record"
proof -
  have h: "meta_symbol iso_payload = Inr (PStr ''SPY'')"
    by (simp add: iso_payload_def meta_symbol_def bind_err_def py_getitem_def)
  have c: "check (strptime (cpython PNone)) iso_record ''datetime'' = Some (ValueError ''strptime'')"
    by (simp add: check_def bind_err_def py_getitem_def iso_record_def cpython_def ex_strptime_iso)
  note t = transform_hourly_failure_order[OF h, of "cpython PNone"
        "[(''datetime'', PStr ''2024-01-01T09:30:00''), (''high'', PStr ''471.0''),
          (''low'', PStr ''469.8''), (''close'', PStr ''470.5''), (''volume'', PStr ''1000000'')]",
        folded iso_record_def]
  from t c have s: "snd (transform_hourly_record (cpython PNone) iso_payload iso_record) =
      Some (ValueError ''strptime'')"
    by blast
  from t s have "\<not> valid_bar_record (cpython PNone) iso_record" by simp
  with h c s show ?thesis by simp
qed

text \<open>
  Claim C9, as the code has it. Every row that the loop of \<open>transform_hourly\<close> produces
  has an integer volume: the integer that \<^verbatim>\<open>int\<close> returns for the volume entry of the
  record. Nothing looks at its sign.
\<close>

theorem transform_hourly_volume:
  assumes "transform_hourly_loop E response_dict vs = (rows, None)"
  shows "length rows = length vs \<and>
         (\<forall>i < length vs. decoded_field (py_int E) PInt ''volume'' (vs ! i) (rows ! i))"
  using hourly_loop_success[OF assms] by (auto simp: is_bar_row_def)

lemma ex_int_negative: "cpython_int (PStr ''-5'') = Inr (- 5)"
  by (simp add: cpython_defs)

text \<open>The volume \<^verbatim>\<open>"-5"\<close> is accepted and gives a row with the volume \<open>- 5\<close>.\<close>

theorem transform_hourly_volume_counterexample:
  "transform_hourly_loop (cpython PNone) negative_payload [negative_record] =
     ([PDict [(''datetime'', PDatetime \<lparr>year = 2024, month = 1, day = 1, hour = 9, minute = 30, second = 0\<rparr>),
              (''open'', PFloat (Decimal 4701 1)), (''high'', PFloat (Decimal 4710 1)),
              (''low'', PFloat (Decimal 4698 1)), (''close'', PFloat (Decimal 4705 1)),
              (''volume'', PInt (- 5)), (''symbol'', PStr ''SPY'')]], None)"
  by (simp add: transform_hourly_record_def then_stmt_def assign_item_def py_setitem_def
      py_getitem_def bind_err_def as_datetime_def as_float_def as_int_def meta_symbol_def
      negative_payload_def negative_record_def cpython_def ex ex_int_negative)

text \<open>The end-to-end example, through the theorem.\<close>

theorem transform_hourly_volume_witness:
  "transform_hourly_loop (cpython PNone) spy_payload [spy_record] =
     ([PDict [(''datetime'', PDatetime \<lparr>year = 2024, month = 1, day = 1, hour = 9, minute = 30, second = 0\<rparr>),
              (''open'', PFloat (Decimal 4701 1)), (''high'', PFloat (Decimal 4710 1)),
              (''low'', PFloat (Decimal 4698 1)), (''close'', PFloat (Decimal 4705 1)),
              (''volume'', PInt 1000000), (''symbol'', PStr ''SPY'')]], None) \<and>
   decoded_field (py_int (cpython PNone)) PInt ''volume'' spy_record
     (PDict [(''datetime'', PDatetime \<lparr>year = 2024, month = 1, day = 1, hour = 9, minute = 30, second = 0\<rparr>),
              (''open'', PFloat (Decimal 4701 1)), (''high'', PFloat (Decimal 4710 1)),
              (''low'', PFloat (Decimal 4698 1)), (''close'', PFloat (Decimal 4705 1)),
              (''volume'', PInt 1000000), (''symbol'', PStr ''SPY'')])"
  using transform_hourly_volume[OF spy_rows] spy_rows by simp


section \<open>The database\<close>

lemma create_hourly_table_eq:
  "create_hourly_table w =
     (w\<lparr>session := ensure_table ''hourly_data'' hourly_data_table (session w)\<rparr>, None)"
  by (simp add: create_hourly_table_def table_exists_def execute_create_table_def ensure_table_def)

lemma create_technical_table_eq:
  "create_technical_table w =
     (w\<lparr>session := ensure_table ''technical_data'' technical_data_table (session w)\<rparr>, None)"
  by (simp add: create_technical_table_def table_exists_def execute_create_table_def ensure_table_def)

lemma insert_row_frame:
  "insert_row name xs w = (w', r) \<Longrightarrow> trace w' = trace w \<and> database w' = database w"
  by (auto simp: insert_row_def split: option.splits if_splits)

lemma insert_rows_frame:
  "insert_rows name xss w = (w', r) \<Longrightarrow> trace w' = trace w \<and> database w' = database w"
proof (induction xss arbitrary: w)
  case Nil
  then show ?case by simp
next
  case (Cons xs xss)
  show ?case
  proof (cases "insert_row name xs w")
    case (Pair w1 r1)
    with Cons insert_row_frame[OF Pair] show ?thesis
      by (cases r1) auto
  qed
qed

lemma execute_pages_frame:
  "execute_pages name ks ps w = (w', r) \<Longrightarrow> trace w' = trace w \<and> database w' = database w"
proof (induction ps arbitrary: w)
  case Nil
  then show ?case by simp
next
  case (Cons page ps)
  show ?case
  proof (cases "mogrify_page ks page")
    case (Inl e)
    with Cons.prems show ?thesis by simp
  next
    case (Inr xss)
    show ?thesis
    proof (cases "insert_rows name xss w")
      case (Pair w1 r1)
      with Cons Inr insert_rows_frame[OF Pair] show ?thesis
        by (cases r1) auto
    qed
  qed
qed

lemma insert_rows_success:
  "insert_rows name xss w = (w', None) \<Longrightarrow> session w name = Some t \<Longrightarrow>
   session w' = (session w)(name \<mapsto> add_rows xss t)"
proof (induction xss arbitrary: w t)
  case Nil
  then show ?case by (auto simp: add_rows_def)
next
  case (Cons xs xss)
  from Cons.prems obtain w1 where
    one: "insert_row name xs w = (w1, None)" and rest: "insert_rows name xss w1 = (w', None)"
    by (auto split: prod.splits option.splits)
  from one Cons.prems(2) have s1: "session w1 = (session w)(name \<mapsto> add_rows [xs] t)"
    by (auto simp: insert_row_def add_rows_def split: if_splits)
  then have "session w1 name = Some (add_rows [xs] t)" by simp
  from Cons.IH[OF rest this] s1 show ?case
    by (auto simp: add_rows_def fun_eq_iff)
qed

lemma mogrify_page_append:
  "mogrify_page ks (a @ b) =
     (case mogrify_page ks a of
        Inl e \<Rightarrow> Inl e
      | Inr xs \<Rightarrow> (case mogrify_page ks b of Inl e \<Rightarrow> Inl e | Inr ys \<Rightarrow> Inr (xs @ ys)))"
  by (induction a) (auto split: sum.splits)

lemma execute_pages_success:
  "execute_pages name ks ps w = (w', None) \<Longrightarrow> session w name = Some t \<Longrightarrow>
   \<exists>xss. mogrify_page ks (concat ps) = Inr xss \<and>
     session w' = (session w)(name \<mapsto> add_rows xss t)"
proof (induction ps arbitrary: w t)
  case Nil
  then show ?case by (auto simp: add_rows_def)
next
  case (Cons page ps)
  from Cons.prems obtain xss w1 where
    m: "mogrify_page ks page = Inr xss"
    and i: "insert_rows name xss w = (w1, None)"
    and rest: "execute_pages name ks ps w1 = (w', None)"
    by (auto split: sum.splits prod.splits option.splits)
  from insert_rows_success[OF i Cons.prems(2)]
  have s1: "session w1 = (session w)(name \<mapsto> add_rows xss t)" .
  then have "session w1 name = Some (add_rows xss t)" by simp
  from Cons.IH[OF rest this] obtain yss where
    y: "mogrify_page ks (concat ps) = Inr yss"
    "session w' = (session w1)(name \<mapsto> add_rows yss (add_rows xss t))"
    by blast
  with m s1 show ?case
    by (auto simp: mogrify_page_append add_rows_def fun_eq_iff)
qed

lemma concat_pages: "concat (pages xs) = xs"
  by (induction xs rule: pages.induct) (simp_all del: take_Cons' drop_Cons')

text \<open>The chain of statements that both load functions are.\<close>

lemma load_chain:
  assumes "\<And>w. create w = (w\<lparr>session := ensure_table name t0 (session w)\<rparr>, None)"
  shows "then_stmt (connect E)
          (then_stmt (emit OpenCursor)
          (then_stmt create
          (then_stmt (execute_batch name ks rows)
          (then_stmt commit
          (then_stmt (emit CloseCursor)
          (then_stmt (emit CloseConnection)
                     (emit (Print ''Load time''))))))))  w =
     (if \<not> db_reachable E then (w, Some OperationalError)
      else
        (case execute_pages name ks (pages rows)
                (w\<lparr>session := ensure_table name t0 (database w),
                   trace := trace w @ [Connect, OpenCursor, ExecuteBatch name (length rows)]\<rparr>) of
           (w2, Some e) \<Rightarrow> (w2, Some e)
         | (w2, None) \<Rightarrow>
             (w2\<lparr>database := session w2,
                 trace := trace w2 @ [Commit, CloseCursor, CloseConnection, Print ''Load time'']\<rparr>,
              None)))"
  by (auto simp: then_stmt_def connect_def emit_def assms execute_batch_def commit_def
      split: prod.splits option.splits)

lemma load_hourly_eq:
  "load_hourly E rows w =
     (if \<not> db_reachable E then (w, Some OperationalError)
      else
        (case execute_pages ''hourly_data'' hourly_placeholders (pages rows)
                (w\<lparr>session := ensure_table ''hourly_data'' hourly_data_table (database w),
                   trace := trace w @ [Connect, OpenCursor, ExecuteBatch ''hourly_data'' (length rows)]\<rparr>) of
           (w2, Some e) \<Rightarrow> (w2, Some e)
         | (w2, None) \<Rightarrow>
             (w2\<lparr>database := session w2,
                 trace := trace w2 @ [Commit, CloseCursor, CloseConnection, Print ''Load time'']\<rparr>,
              None)))"
  unfolding load_hourly_def by (rule load_chain) (rule create_hourly_table_eq)

lemma load_technical_eq:
  "load_technical E rows w =
     (if \<not> db_reachable E then (w, Some OperationalError)
      else
        (case execute_pages ''technical_data'' technical_placeholders (pages rows)
                (w\<lparr>session := ensure_table ''technical_data'' technical_data_table (database w),
                   trace := trace w @ [Connect, OpenCursor, ExecuteBatch ''technical_data'' (length rows)]\<rparr>) of
           (w2, Some e) \<Rightarrow> (w2, Some e)
         | (w2, None) \<Rightarrow>
             (w2\<lparr>database := session w2,
                 trace := trace w2 @ [Commit, CloseCursor, CloseConnection, Print ''Load time'']\<rparr>,
              None)))"
  unfolding load_technical_def by (rule load_chain) (rule create_technical_table_eq)

lemma ensure_table_there: "\<exists>t. ensure_table name t0 tables name = Some t"
  by (auto simp: ensure_table_def)

lemma load_paths_generic:
  assumes eq: "load E rows w =
     (if \<not> db_reachable E then (w, Some OperationalError)
      else
        (case execute_pages name ks (pages rows)
                (w\<lparr>session := ensure_table name t0 (database w),
                   trace := trace w @ [Connect, OpenCursor, ExecuteBatch name (length rows)]\<rparr>) of
           (w2, Some e) \<Rightarrow> (w2, Some e)
         | (w2, None) \<Rightarrow>
             (w2\<lparr>database := session w2,
                 trace := trace w2 @ [Commit, CloseCursor, CloseConnection, Print ''Load time'']\<rparr>,
              None)))"
  shows "(load E rows w = (w', None) \<longrightarrow> db_reachable E \<and> load_succeeded name t0 ks rows w w') \<and>
         (load E rows w = (w', Some e) \<longrightarrow> load_failed E name rows e w w')"
proof (cases "db_reachable E")
  case False
  with eq show ?thesis by (auto simp: load_failed_def)
next
  case True
  define w1 where "w1 = w\<lparr>session := ensure_table name t0 (database w),
      trace := trace w @ [Connect, OpenCursor, ExecuteBatch name (length rows)]\<rparr>"
  obtain w2 r where ex: "execute_pages name ks (pages rows) w1 = (w2, r)"
    by (cases "execute_pages name ks (pages rows) w1")
  from execute_pages_frame[OF ex]
  have frame: "trace w2 = trace w1" "database w2 = database w1" by simp_all
  show ?thesis
  proof (cases r)
    case None
    obtain t where t: "session w1 name = Some t"
      using ensure_table_there[of name t0 "database w"] by (auto simp: w1_def)
    from execute_pages_success[OF ex[unfolded None] t] obtain xss where
      x: "mogrify_page ks rows = Inr xss" "session w2 = (session w1)(name \<mapsto> add_rows xss t)"
      by (auto simp: concat_pages)
    have "load E rows w = (w2\<lparr>database := session w2,
        trace := trace w2 @ [Commit, CloseCursor, CloseConnection, Print ''Load time'']\<rparr>, None)"
      using eq True ex None by (simp add: w1_def)
    moreover have "load_succeeded name t0 ks rows w
        (w2\<lparr>database := session w2,
            trace := trace w2 @ [Commit, CloseCursor, CloseConnection, Print ''Load time'']\<rparr>)"
      using frame x t by (auto simp: load_succeeded_def w1_def)
    ultimately show ?thesis using True by auto
  next
    case (Some e')
    have "load E rows w = (w2, Some e')"
      using eq True ex Some by (simp add: w1_def)
    moreover have "load_failed E name rows e' w w2"
      using frame True by (simp add: load_failed_def w1_def)
    ultimately show ?thesis by auto
  qed
qed

text \<open>
  Claim C7, as the code has it. When \<open>load_hourly\<close> or \<open>load_technical\<close> returns normally,
  the database accepted the connection and the call opened one connection and one
  cursor, made sure of the table, inserted all the rows in one batch inside one
  transaction, committed, and closed the cursor and the connection. When the call
  raises, nothing is committed, and the exception leaves the function at once: a
  refused connection opened nothing, and after a failure of the batch the cursor and
  the connection that were opened are not closed by the function.
\<close>

theorem load_paths:
  "(load_hourly E rows w = (w', None) \<longrightarrow>
      db_reachable E \<and>
      load_succeeded ''hourly_data'' hourly_data_table hourly_placeholders rows w w') \<and>
   (load_hourly E rows w = (w', Some e) \<longrightarrow> load_failed E ''hourly_data'' rows e w w') \<and>
   (load_technical E rows w = (w', None) \<longrightarrow>
      db_reachable E \<and>
      load_succeeded ''technical_data'' technical_data_table technical_placeholders rows w w') \<and>
   (load_technical E rows w = (w', Some e) \<longrightarrow> load_failed E ''technical_data'' rows e w w')"
  using load_paths_generic[of load_hourly, OF load_hourly_eq, of E rows w w' e]
    load_paths_generic[of load_technical, OF load_technical_eq, of E rows w w' e]
  by blast

lemmas db_eval = load_hourly_eq load_technical_eq ensure_table_def
  py_getitem_def insert_row_def key_of_def hourly_data_table_def technical_data_table_def
  hourly_placeholders_def technical_placeholders_def new_world_def cpython_def add_rows_def

lemma load_hourly_spy:
  "load_hourly (cpython PNone) [spy_row] new_world =
     (\<lparr>database = [''hourly_data'' \<mapsto> add_rows
          [[PStr ''SPY'', PDatetime \<lparr>year = 2024, month = 1, day = 1, hour = 9, minute = 30, second = 0\<rparr>,
            PFloat (Decimal 4701 1), PFloat (Decimal 4710 1), PFloat (Decimal 4698 1),
            PFloat (Decimal 4705 1), PInt 1000000]] hourly_data_table],
       session = [''hourly_data'' \<mapsto> add_rows
          [[PStr ''SPY'', PDatetime \<lparr>year = 2024, month = 1, day = 1, hour = 9, minute = 30, second = 0\<rparr>,
            PFloat (Decimal 4701 1), PFloat (Decimal 4710 1), PFloat (Decimal 4698 1),
            PFloat (Decimal 4705 1), PInt 1000000]] hourly_data_table],
       trace = [Connect, OpenCursor, ExecuteBatch ''hourly_data'' 1, Commit, CloseCursor,
                CloseConnection, Print ''Load time'']\<rparr>, None)"
  by (simp add: db_eval spy_row_def)

lemma load_hourly_duplicate:
  "load_hourly (cpython PNone) [spy_row, spy_row] new_world =
     (\<lparr>database = Map.empty,
       session = [''hourly_data'' \<mapsto> add_rows
          [[PStr ''SPY'', PDatetime \<lparr>year = 2024, month = 1, day = 1, hour = 9, minute = 30, second = 0\<rparr>,
            PFloat (Decimal 4701 1), PFloat (Decimal 4710 1), PFloat (Decimal 4698 1),
            PFloat (Decimal 4705 1), PInt 1000000]] hourly_data_table],
       trace = [Connect, OpenCursor, ExecuteBatch ''hourly_data'' 2]\<rparr>, Some UniqueViolation)"
  by (simp add: db_eval spy_row_def)

text \<open>A batch with the same row twice: the second insert violates the primary key, and
  the trace of the call ends with the batch, without a close of the cursor or of the
  connection.\<close>

theorem load_paths_counterexample:
  "snd (load_hourly (cpython PNone) [spy_row, spy_row] new_world) = Some UniqueViolation \<and>
   trace (fst (load_hourly (cpython PNone) [spy_row, spy_row] new_world)) =
     [Connect, OpenCursor, ExecuteBatch ''hourly_data'' 2] \<and>
   database (fst (load_hourly (cpython PNone) [spy_row, spy_row] new_world)) = Map.empty"
  by (simp add: load_hourly_duplicate)

lemma load_technical_rsi:
  "load_technical (cpython PNone) [rsi_row] new_world =
     (\<lparr>database = [''technical_data'' \<mapsto> add_rows
          [[PStr ''SPY'', PDatetime \<lparr>year = 2024, month = 1, day = 1, hour = 9, minute = 30, second = 0\<rparr>,
            PStr ''rsi'', PFloat (Decimal 552 1)]] technical_data_table],
       session = [''technical_data'' \<mapsto> add_rows
          [[PStr ''SPY'', PDatetime \<lparr>year = 2024, month = 1, day = 1, hour = 9, minute = 30, second = 0\<rparr>,
            PStr ''rsi'', PFloat (Decimal 552 1)]] technical_data_table],
       trace = [Connect, OpenCursor, ExecuteBatch ''technical_data'' 1, Commit, CloseCursor,
                CloseConnection, Print ''Load time'']\<rparr>, None)"
  by (simp add: db_eval rsi_row_def)

lemma load_technical_duplicate:
  "load_technical (cpython PNone) [rsi_row, rsi_row] new_world =
     (\<lparr>database = Map.empty,
       session = [''technical_data'' \<mapsto> add_rows
          [[PStr ''SPY'', PDatetime \<lparr>year = 2024, month = 1, day = 1, hour = 9, minute = 30, second = 0\<rparr>,
            PStr ''rsi'', PFloat (Decimal 552 1)]] technical_data_table],
       trace = [Connect, OpenCursor, ExecuteBatch ''technical_data'' 2]\<rparr>, Some UniqueViolation)"
  by (simp add: db_eval rsi_row_def)

text \<open>Both paths of both functions, on the rows of the examples.\<close>

theorem load_paths_witness:
  "snd (load_hourly (cpython PNone) [spy_row] new_world) = None \<and>
   load_succeeded ''hourly_data'' hourly_data_table hourly_placeholders [spy_row] new_world
     (fst (load_hourly (cpython PNone) [spy_row] new_world)) \<and>
   snd (load_hourly (cpython PNone) [spy_row, spy_row] new_world) = Some UniqueViolation \<and>
   load_failed (cpython PNone) ''hourly_data'' [spy_row, spy_row] UniqueViolation new_world
     (fst (load_hourly (cpython PNone) [spy_row, spy_row] new_world)) \<and>
   snd (load_technical (cpython PNone) [rsi_row] new_world) = None \<and>
   load_succeeded ''technical_data'' technical_data_table technical_placeholders [rsi_row] new_world
     (fst (load_technical (cpython PNone) [rsi_row] new_world)) \<and>
   snd (load_technical (cpython PNone) [rsi_row, rsi_row] new_world) = Some UniqueViolation \<and>
   load_failed (cpython PNone) ''technical_data'' [rsi_row, rsi_row] UniqueViolation new_world
     (fst (load_technical (cpython PNone) [rsi_row, rsi_row] new_world))"
  using load_paths[of "cpython PNone" "[spy_row]" new_world
      "fst (load_hourly (cpython PNone) [spy_row] new_world)"]
    load_paths[of "cpython PNone" "[spy_row, spy_row]" new_world
      "fst (load_hourly (cpython PNone) [spy_row, spy_row] new_world)" UniqueViolation]
    load_paths[of "cpython PNone" "[rsi_row]" new_world
      "fst (load_technical (cpython PNone) [rsi_row] new_world)"]
    load_paths[of "cpython PNone" "[rsi_row, rsi_row]" new_world
      "fst (load_technical (cpython PNone) [rsi_row, rsi_row] new_world)" UniqueViolation]
  by (simp add: load_hourly_spy load_hourly_duplicate load_technical_rsi load_technical_duplicate)

text \<open>
  Claim C6. In every state of the connection, \<open>create_hourly_table\<close> and
  \<open>create_technical_table\<close> raise nothing, a second call right after the first raises
  nothing and changes nothing, every table that was there before the call is there
  unchanged after it, and the table is created, as declared, exactly when it was not
  there.
\<close>

theorem create_tables_idempotent:
  "snd (create_hourly_table w) = None \<and>
   create_hourly_table (fst (create_hourly_table w)) = (fst (create_hourly_table w), None) \<and>
   (\<forall>name t. session w name = Some t \<longrightarrow> session (fst (create_hourly_table w)) name = Some t) \<and>
   (session w ''hourly_data'' = None \<longrightarrow>
      session (fst (create_hourly_table w)) = (session w)(''hourly_data'' \<mapsto> hourly_data_table)) \<and>
   snd (create_technical_table w) = None \<and>
   create_technical_table (fst (create_technical_table w)) = (fst (create_technical_table w), None) \<and>
   (\<forall>name t. session w name = Some t \<longrightarrow> session (fst (create_technical_table w)) name = Some t) \<and>
   (session w ''technical_data'' = None \<longrightarrow>
      session (fst (create_technical_table w)) = (session w)(''technical_data'' \<mapsto> technical_data_table))"
  by (auto simp: create_hourly_table_eq create_technical_table_eq ensure_table_def)

text \<open>On a database that has the table of the bars and not the one of the indicators.\<close>

theorem create_tables_idempotent_witness:
  "session stocked_world ''hourly_data'' = Some (add_rows [[PStr ''SPY'']] hourly_data_table) \<and>
   create_hourly_table stocked_world = (stocked_world, None) \<and>
   session stocked_world ''technical_data'' = None \<and>
   snd (create_technical_table stocked_world) = None \<and>
   session (fst (create_technical_table stocked_world)) =
     [''hourly_data'' \<mapsto> add_rows [[PStr ''SPY'']] hourly_data_table,
      ''technical_data'' \<mapsto> technical_data_table] \<and>
   create_technical_table (fst (create_technical_table stocked_world)) =
     (fst (create_technical_table stocked_world), None)"
proof -
  have a: "session stocked_world ''hourly_data'' = Some (add_rows [[PStr ''SPY'']] hourly_data_table)"
    by (simp add: stocked_world_def)
  have b: "session stocked_world ''technical_data'' = None"
    by (simp add: stocked_world_def)
  have c: "create_hourly_table stocked_world = (stocked_world, None)"
    using a by (simp add: create_hourly_table_eq ensure_table_def)
  have d: "session stocked_world =
      [''hourly_data'' \<mapsto> add_rows [[PStr ''SPY'']] hourly_data_table]"
    by (simp add: stocked_world_def)
  from create_tables_idempotent[of stocked_world] a b c d show ?thesis
    by simp
qed

lemma dict_set_same: "map_of kvs k = Some v \<Longrightarrow> dict_set k v kvs = kvs"
  by (induction kvs) (auto split: if_splits)

lemma store_values_getitem:
  assumes "py_getitem response_dict ''values'' = Inr (PList vs)"
  shows "py_getitem (store_values response_dict rows) k =
           (if k = ''values'' then Inr (PList rows) else py_getitem response_dict k)"
  using assms
  by (cases response_dict)
     (auto simp: store_values_def py_getitem_def map_of_dict_set split: option.splits)

lemma store_values_same:
  assumes "py_getitem response_dict ''values'' = Inr (PList vs)"
  shows "store_values response_dict vs = response_dict"
  using assms
  by (cases response_dict)
     (auto simp: store_values_def py_getitem_def dict_set_same split: option.splits)

lemma same_rows_ensure_table:
  "table_rows t0 = [] \<Longrightarrow> same_rows tables (ensure_table name t0 tables)"
  by (auto simp: same_rows_def ensure_table_def split: option.splits)

section \<open>Empty values\<close>

text \<open>
  Claim C5. For a payload whose values are the empty list, both loops end at once with
  no row and no exception, and (the database accepting the connection) both transforms
  return normally, leave the payload as it was, and their load step runs a batch of
  zero rows and commits: no row is inserted, the only change possible is the creation
  of the empty table.
\<close>

theorem empty_values:
  assumes "py_getitem response_dict ''values'' = Inr (PList [])" and "db_reachable E"
  shows "transform_hourly_loop E response_dict [] = ([], None) \<and>
         transform_technical_loop E response_dict indicator [] = Inr [] \<and>
         transform_hourly E response_dict w =
           ((response_dict,
             w\<lparr>database := ensure_table ''hourly_data'' hourly_data_table (database w),
               session := ensure_table ''hourly_data'' hourly_data_table (database w),
               trace := trace w @ [Print ''Transform time'', Connect, OpenCursor,
                 ExecuteBatch ''hourly_data'' 0, Commit, CloseCursor, CloseConnection,
                 Print ''Load time'']\<rparr>), None) \<and>
         same_rows (database w) (ensure_table ''hourly_data'' hourly_data_table (database w)) \<and>
         transform_technical E response_dict indicator w =
           ((response_dict,
             w\<lparr>database := ensure_table ''technical_data'' technical_data_table (database w),
               session := ensure_table ''technical_data'' technical_data_table (database w),
               trace := trace w @ [Print ''Transform time'', Connect, OpenCursor,
                 ExecuteBatch ''technical_data'' 0, Commit, CloseCursor, CloseConnection,
                 Print ''Load time'']\<rparr>), None) \<and>
         same_rows (database w) (ensure_table ''technical_data'' technical_data_table (database w))"
proof -
  have h: "transform_hourly E response_dict w =
           ((response_dict,
             w\<lparr>database := ensure_table ''hourly_data'' hourly_data_table (database w),
               session := ensure_table ''hourly_data'' hourly_data_table (database w),
               trace := trace w @ [Print ''Transform time'', Connect, OpenCursor,
                 ExecuteBatch ''hourly_data'' 0, Commit, CloseCursor, CloseConnection,
                 Print ''Load time'']\<rparr>), None)"
    using assms store_values_same[OF assms(1)]
    by (simp add: transform_hourly_def bind_err_def py_iter_def then_stmt_def emit_def
        load_hourly_eq)
  have t: "transform_technical E response_dict indicator w =
           ((response_dict,
             w\<lparr>database := ensure_table ''technical_data'' technical_data_table (database w),
               session := ensure_table ''technical_data'' technical_data_table (database w),
               trace := trace w @ [Print ''Transform time'', Connect, OpenCursor,
                 ExecuteBatch ''technical_data'' 0, Commit, CloseCursor, CloseConnection,
                 Print ''Load time'']\<rparr>), None)"
    using assms
    by (simp add: transform_technical_def bind_err_def py_iter_def then_stmt_def emit_def
        load_technical_eq)
  have "same_rows (database w) (ensure_table ''hourly_data'' hourly_data_table (database w))"
    by (rule same_rows_ensure_table) (simp add: hourly_data_table_def)
  moreover
  have "same_rows (database w) (ensure_table ''technical_data'' technical_data_table (database w))"
    by (rule same_rows_ensure_table) (simp add: technical_data_table_def)
  ultimately show ?thesis using h t by simp
qed

text \<open>On a new database.\<close>

theorem empty_values_witness:
  "py_getitem empty_payload ''values'' = Inr (PList []) \<and>
   db_reachable (cpython PNone) \<and>
   transform_hourly (cpython PNone) empty_payload new_world =
     ((empty_payload,
       \<lparr>database = [''hourly_data'' \<mapsto> hourly_data_table],
        session = [''hourly_data'' \<mapsto> hourly_data_table],
        trace = [Print ''Transform time'', Connect, OpenCursor, ExecuteBatch ''hourly_data'' 0,
                 Commit, CloseCursor, CloseConnection, Print ''Load time'']\<rparr>), None) \<and>
   transform_technical (cpython PNone) empty_payload ''rsi'' new_world =
     ((empty_payload,
       \<lparr>database = [''technical_data'' \<mapsto> technical_data_table],
        session = [''technical_data'' \<mapsto> technical_data_table],
        trace = [Print ''Transform time'', Connect, OpenCursor, ExecuteBatch ''technical_data'' 0,
                 Commit, CloseCursor, CloseConnection, Print ''Load time'']\<rparr>), None)"
proof -
  have a: "py_getitem empty_payload ''values'' = Inr (PList [])"
    by (simp add: empty_payload_def py_getitem_def)
  have b: "db_reachable (cpython PNone)"
    by (simp add: cpython_def)
  from empty_values[OF a b, of "''rsi''" new_world] a b show ?thesis
    by (simp add: new_world_def ensure_table_def)
qed

section \<open>What the transforms do besides computing rows\<close>

lemma load_trace_grows_generic:
  assumes "\<And>w' e. (load E rows w = (w', None) \<longrightarrow> db_reachable E \<and> load_succeeded name t0 ks rows w w') \<and>
         (load E rows w = (w', Some e) \<longrightarrow> load_failed E name rows e w w')"
  shows "\<exists>more. trace (fst (load E rows w)) = trace w @ more"
proof -
  obtain w' r where h: "load E rows w = (w', r)" by (cases "load E rows w")
  show ?thesis
  proof (cases r)
    case None
    with assms[of w'] h have "load_succeeded name t0 ks rows w w'" by simp
    with h show ?thesis by (simp add: load_succeeded_def)
  next
    case (Some e)
    with assms[of w' e] h have "load_failed E name rows e w w'" by simp
    with h show ?thesis by (cases "db_reachable E") (simp_all add: load_failed_def)
  qed
qed

lemma load_trace_grows:
  "\<exists>more. trace (fst (load_hourly E rows w)) = trace w @ more"
  "\<exists>more. trace (fst (load_technical E rows w)) = trace w @ more"
  using load_trace_grows_generic[of load_hourly, OF load_paths_generic[of load_hourly, OF load_hourly_eq]]
    load_trace_grows_generic[of load_technical, OF load_paths_generic[of load_technical, OF load_technical_eq]]
  by blast+

text \<open>
  Claim C3, as the code has it. \<open>transform_technical\<close> leaves the payload it was given
  unchanged. \<open>transform_hourly\<close> rewrites it in place: when its loop ends normally, the
  values of the payload after the call are the rows, and every other entry is as it
  was. What the call leaves in the payload does not depend on the state of the world.
  Both transforms do input and output once their loop has ended normally: they print
  the time line and go on to the load step.
\<close>

theorem transform_effects:
  "fst (fst (transform_technical E response_dict indicator w)) = response_dict \<and>
   fst (fst (transform_hourly E response_dict w)) = fst (fst (transform_hourly E response_dict w2)) \<and>
   (py_getitem response_dict ''values'' = Inr (PList vs) \<and>
    transform_hourly_loop E response_dict vs = (rows, None) \<longrightarrow>
      py_getitem (fst (fst (transform_hourly E response_dict w))) ''values'' = Inr (PList rows) \<and>
      (\<forall>k. k \<noteq> ''values'' \<longrightarrow>
         py_getitem (fst (fst (transform_hourly E response_dict w))) k = py_getitem response_dict k) \<and>
      (\<exists>more. trace (snd (fst (transform_hourly E response_dict w))) =
         trace w @ Print ''Transform time'' # more)) \<and>
   (py_getitem response_dict ''values'' = Inr (PList vs) \<and>
    transform_technical_loop E response_dict indicator vs = Inr technical_rows \<longrightarrow>
      (\<exists>more. trace (snd (fst (transform_technical E response_dict indicator w))) =
         trace w @ Print ''Transform time'' # more))"
proof -
  have a: "fst (fst (transform_technical E response_dict indicator w)) = response_dict"
    by (auto simp: transform_technical_def split: sum.splits prod.splits)
  have b: "fst (fst (transform_hourly E response_dict w)) =
      fst (fst (transform_hourly E response_dict w2))"
    by (auto simp: transform_hourly_def split: sum.splits prod.splits option.splits)
  have c: "py_getitem (fst (fst (transform_hourly E response_dict w))) ''values'' = Inr (PList rows) \<and>
      (\<forall>k. k \<noteq> ''values'' \<longrightarrow>
         py_getitem (fst (fst (transform_hourly E response_dict w))) k = py_getitem response_dict k) \<and>
      (\<exists>more. trace (snd (fst (transform_hourly E response_dict w))) =
         trace w @ Print ''Transform time'' # more)"
    if h: "py_getitem response_dict ''values'' = Inr (PList vs)"
      "transform_hourly_loop E response_dict vs = (rows, None)"
  proof -
    define w1 where "w1 = w\<lparr>trace := trace w @ [Print ''Transform time'']\<rparr>"
    have eq: "transform_hourly E response_dict w =
        ((store_values response_dict rows, fst (load_hourly E rows w1)),
         snd (load_hourly E rows w1))"
      using h by (simp add: transform_hourly_def bind_err_def py_iter_def then_stmt_def emit_def
          w1_def split: prod.splits)
    from load_trace_grows(1)[of E rows w1] obtain more where
      "trace (fst (load_hourly E rows w1)) = trace w1 @ more" by blast
    then have "trace (snd (fst (transform_hourly E response_dict w))) =
        trace w @ Print ''Transform time'' # more"
      by (simp add: eq w1_def)
    then show ?thesis
      using store_values_getitem[OF h(1)] by (auto simp: eq)
  qed
  have d: "\<exists>more. trace (snd (fst (transform_technical E response_dict indicator w))) =
         trace w @ Print ''Transform time'' # more"
    if h: "py_getitem response_dict ''values'' = Inr (PList vs)"
      "transform_technical_loop E response_dict indicator vs = Inr technical_rows"
  proof -
    define w1 where "w1 = w\<lparr>trace := trace w @ [Print ''Transform time'']\<rparr>"
    have eq: "transform_technical E response_dict indicator w =
        ((response_dict, fst (load_technical E technical_rows w1)),
         snd (load_technical E technical_rows w1))"
      using h by (simp add: transform_technical_def bind_err_def py_iter_def then_stmt_def
          emit_def w1_def split: prod.splits)
    from load_trace_grows(2)[of E technical_rows w1] obtain more where
      "trace (fst (load_technical E technical_rows w1)) = trace w1 @ more" by blast
    then show ?thesis by (simp add: eq w1_def)
  qed
  from a b c d show ?thesis by blast
qed

lemma transform_hourly_spy:
  "transform_hourly (cpython PNone) spy_payload new_world =
     ((PDict [(''meta'', PDict [(''symbol'', PStr ''SPY'')]), (''values'', PList [spy_row])],
       fst (load_hourly (cpython PNone) [spy_row]
              (new_world\<lparr>trace := [Print ''Transform time'']\<rparr>))),
      snd (load_hourly (cpython PNone) [spy_row]
              (new_world\<lparr>trace := [Print ''Transform time'']\<rparr>)))"
  using spy_rows
  by (simp add: transform_hourly_def bind_err_def py_iter_def py_getitem_def then_stmt_def
      emit_def store_values_def spy_payload_def spy_row_def new_world_def split: prod.splits)

lemma load_hourly_spy_printed:
  "load_hourly (cpython PNone) [spy_row] (new_world\<lparr>trace := [Print ''Transform time'']\<rparr>) =
     (\<lparr>database = [''hourly_data'' \<mapsto> add_rows
          [[PStr ''SPY'', PDatetime \<lparr>year = 2024, month = 1, day = 1, hour = 9, minute = 30, second = 0\<rparr>,
            PFloat (Decimal 4701 1), PFloat (Decimal 4710 1), PFloat (Decimal 4698 1),
            PFloat (Decimal 4705 1), PInt 1000000]] hourly_data_table],
       session = [''hourly_data'' \<mapsto> add_rows
          [[PStr ''SPY'', PDatetime \<lparr>year = 2024, month = 1, day = 1, hour = 9, minute = 30, second = 0\<rparr>,
            PFloat (Decimal 4701 1), PFloat (Decimal 4710 1), PFloat (Decimal 4698 1),
            PFloat (Decimal 4705 1), PInt 1000000]] hourly_data_table],
       trace = [Print ''Transform time'', Connect, OpenCursor, ExecuteBatch ''hourly_data'' 1,
                Commit, CloseCursor, CloseConnection, Print ''Load time'']\<rparr>, None)"
  by (simp add: db_eval spy_row_def)

text \<open>After \<open>transform_hourly\<close> on the payload of the end-to-end example, the payload holds
  the row in place of the record, and a line was printed and the database written.\<close>

theorem transform_effects_counterexample:
  "fst (fst (transform_hourly (cpython PNone) spy_payload new_world)) =
     PDict [(''meta'', PDict [(''symbol'', PStr ''SPY'')]), (''values'', PList [spy_row])] \<and>
   fst (fst (transform_hourly (cpython PNone) spy_payload new_world)) \<noteq> spy_payload \<and>
   trace (snd (fst (transform_hourly (cpython PNone) spy_payload new_world))) =
     [Print ''Transform time'', Connect, OpenCursor, ExecuteBatch ''hourly_data'' 1,
      Commit, CloseCursor, CloseConnection, Print ''Load time'']"
  by (simp add: transform_hourly_spy load_hourly_spy_printed)
     (simp add: spy_payload_def spy_record_def spy_row_def)

text \<open>The two end-to-end examples, through the theorem.\<close>

theorem transform_effects_witness:
  "py_getitem spy_payload ''values'' = Inr (PList [spy_record]) \<and>
   transform_hourly_loop (cpython PNone) spy_payload [spy_record] = ([spy_row], None) \<and>
   py_getitem (fst (fst (transform_hourly (cpython PNone) spy_payload new_world))) ''values'' =
     Inr (PList [spy_row]) \<and>
   py_getitem (fst (fst (transform_hourly (cpython PNone) spy_payload new_world))) ''meta'' =
     py_getitem spy_payload ''meta'' \<and>
   (\<exists>more. trace (snd (fst (transform_hourly (cpython PNone) spy_payload new_world))) =
      Print ''Transform time'' # more) \<and>
   py_getitem rsi_payload ''values'' = Inr (PList [rsi_record]) \<and>
   transform_technical_loop (cpython PNone) rsi_payload ''rsi'' [rsi_record] = Inr [rsi_row] \<and>
   fst (fst (transform_technical (cpython PNone) rsi_payload ''rsi'' new_world)) = rsi_payload \<and>
   (\<exists>more. trace (snd (fst (transform_technical (cpython PNone) rsi_payload ''rsi'' new_world))) =
      Print ''Transform time'' # more)"
proof -
  have a: "py_getitem spy_payload ''values'' = Inr (PList [spy_record])"
    by (simp add: spy_payload_def py_getitem_def)
  have b: "transform_hourly_loop (cpython PNone) spy_payload [spy_record] = ([spy_row], None)"
    using spy_rows by (simp add: spy_row_def)
  have c: "py_getitem rsi_payload ''values'' = Inr (PList [rsi_record])"
    by (simp add: rsi_payload_def py_getitem_def)
  have d: "transform_technical_loop (cpython PNone) rsi_payload ''rsi'' [rsi_record] = Inr [rsi_row]"
    using rsi_rows by (simp add: rsi_row_def)
  have e: "trace (new_world :: decimal world) = []"
    by (simp add: new_world_def)
  from transform_effects[of "cpython PNone" spy_payload "''rsi''" new_world new_world
      "[spy_record]" "[spy_row]" "[]"]
    transform_effects[of "cpython PNone" rsi_payload "''rsi''" new_world new_world
      "[rsi_record]" "[]" "[rsi_row]"]
    a b c d e
  show ?thesis by simp
qed


section \<open>The order of the script\<close>

lemma steps_append: "steps (a @ b) = steps a @ steps b"
  by (induction a) (auto split: option.splits)

lemma follows_then:
  "follows p1 d1 None \<Longrightarrow> follows p2 d2 r \<Longrightarrow> follows (p1 @ p2) (d1 @ d2) r"
  by (auto simp: follows_def steps_append)

lemma follows_stop: "follows p1 d1 (Some e) \<Longrightarrow> follows (p1 @ p2) d1 (Some e)"
  by (auto simp: follows_def)

lemma extract_url_trace:
  "extract_url E url w = (w1, r) \<Longrightarrow> \<exists>d. trace w1 = trace w @ d \<and> steps d = [Fetch url]"
  by (auto simp: extract_url_def Let_def split: sum.splits response.splits)

lemma load_follows:
  assumes "\<And>w' e. (load E rows w = (w', None) \<longrightarrow> db_reachable E \<and> load_succeeded name t0 ks rows w w') \<and>
         (load E rows w = (w', Some e) \<longrightarrow> load_failed E name rows e w w')"
    and "load E rows w = (w', r)"
  shows "\<exists>d. trace w' = trace w @ d \<and> follows [Store name] d r"
proof (cases r)
  case None
  with assms(1)[of w'] assms(2) have "load_succeeded name t0 ks rows w w'" by simp
  then have "trace w' = trace w @ [Connect, OpenCursor, ExecuteBatch name (length rows),
      Commit, CloseCursor, CloseConnection, Print ''Load time'']"
    by (simp add: load_succeeded_def)
  moreover have "follows [Store name] [Connect, OpenCursor, ExecuteBatch name (length rows),
      Commit, CloseCursor, CloseConnection, Print ''Load time''] r"
    by (simp add: follows_def)
  ultimately show ?thesis by blast
next
  case (Some e)
  with assms(1)[of w' e] assms(2) have f: "load_failed E name rows e w w'" by simp
  show ?thesis
  proof (cases "db_reachable E")
    case True
    with f have "trace w' = trace w @ [Connect, OpenCursor, ExecuteBatch name (length rows)]"
      by (simp add: load_failed_def)
    moreover have "follows [Store name] [Connect, OpenCursor, ExecuteBatch name (length rows)] r"
      by (simp add: follows_def)
    ultimately show ?thesis by blast
  next
    case False
    with f have "trace w' = trace w @ []" by (simp add: load_failed_def)
    moreover have "follows [Store name] [] r" using Some by (simp add: follows_def)
    ultimately show ?thesis by blast
  qed
qed

lemma transform_hourly_trace:
  assumes "transform_hourly E data w = ((d', w'), r)"
  shows "\<exists>d. trace w' = trace w @ d \<and> follows [Normalize, Store ''hourly_data''] d r"
proof -
  have stop: ?thesis if "w' = w" "r = Some e" for e
  proof -
    have "trace w' = trace w @ []" using that by simp
    moreover have "follows [Normalize, Store ''hourly_data''] [] r"
      using that by (simp add: follows_def)
    ultimately show ?thesis by blast
  qed
  show ?thesis
  proof (cases "bind_err (py_getitem data ''values'') py_iter")
    case (Inl e)
    with assms stop show ?thesis by (auto simp: transform_hourly_def)
  next
    case (Inr vs)
    obtain vs' lr where l: "transform_hourly_loop E data vs = (vs', lr)"
      by (cases "transform_hourly_loop E data vs")
    show ?thesis
    proof (cases lr)
      case (Some e)
      with assms Inr l stop show ?thesis by (auto simp: transform_hourly_def)
    next
      case None
      define w1 where "w1 = w\<lparr>trace := trace w @ [Print ''Transform time'']\<rparr>"
      from assms Inr l None have "load_hourly E vs' w1 = (w', r)"
        by (auto simp: transform_hourly_def then_stmt_def emit_def w1_def split: prod.splits)
      from load_follows[of load_hourly, OF load_paths_generic[of load_hourly, OF load_hourly_eq] this]
      obtain d where d: "trace w' = trace w1 @ d" "follows [Store ''hourly_data''] d r" by blast
      have "trace w' = trace w @ ([Print ''Transform time''] @ d)"
        using d(1) by (simp add: w1_def)
      moreover have "follows ([Normalize] @ [Store ''hourly_data'']) ([Print ''Transform time''] @ d) r"
        by (rule follows_then[OF _ d(2)]) (simp add: follows_def)
      ultimately show ?thesis by (metis append_Cons append_Nil)
    qed
  qed
qed

lemma transform_technical_trace:
  assumes "transform_technical E data indicator w = ((d', w'), r)"
  shows "\<exists>d. trace w' = trace w @ d \<and> follows [Normalize, Store ''technical_data''] d r"
proof -
  have stop: ?thesis if "w' = w" "r = Some e" for e
  proof -
    have "trace w' = trace w @ []" using that by simp
    moreover have "follows [Normalize, Store ''technical_data''] [] r"
      using that by (simp add: follows_def)
    ultimately show ?thesis by blast
  qed
  show ?thesis
  proof (cases "bind_err (py_getitem data ''values'') py_iter")
    case (Inl e)
    with assms stop show ?thesis by (auto simp: transform_technical_def)
  next
    case (Inr vs)
    show ?thesis
    proof (cases "transform_technical_loop E data indicator vs")
      case (Inl e)
      with assms Inr stop show ?thesis by (auto simp: transform_technical_def)
    next
      case rows: (Inr value_list)
      define w1 where "w1 = w\<lparr>trace := trace w @ [Print ''Transform time'']\<rparr>"
      from assms Inr rows have "load_technical E value_list w1 = (w', r)"
        by (auto simp: transform_technical_def then_stmt_def emit_def w1_def split: prod.splits)
      from load_follows[of load_technical,
          OF load_paths_generic[of load_technical, OF load_technical_eq] this]
      obtain d where d: "trace w' = trace w1 @ d" "follows [Store ''technical_data''] d r" by blast
      have "trace w' = trace w @ ([Print ''Transform time''] @ d)"
        using d(1) by (simp add: w1_def)
      moreover have "follows ([Normalize] @ [Store ''technical_data'']) ([Print ''Transform time''] @ d) r"
        by (rule follows_then[OF _ d(2)]) (simp add: follows_def)
      ultimately show ?thesis by (metis append_Cons append_Nil)
    qed
  qed
qed

lemma hourly_stage_trace:
  "hourly_stage E ts w = (w', r) \<Longrightarrow>
   \<exists>d. trace w' = trace w @ d \<and> follows (concat (map bar_steps ts)) d r"
proof (induction ts arbitrary: w)
  case Nil
  then have "trace w' = trace w @ []" "follows (concat (map bar_steps [])) [] r"
    by (auto simp: follows_def)
  then show ?case by blast
next
  case (Cons ticker ts)
  obtain w1 er where e: "extract_url E (hourly_url ticker) w = (w1, er)"
    by (cases "extract_url E (hourly_url ticker) w")
  from extract_url_trace[OF e] obtain d1 where
    d1: "trace w1 = trace w @ d1" "steps d1 = [Fetch (hourly_url ticker)]" by blast
  show ?case
  proof (cases er)
    case (Inl x)
    with Cons.prems e have "w' = w1" "r = Some x" by auto
    moreover have "follows (concat (map bar_steps (ticker # ts))) d1 (Some x)"
      using d1(2) by (simp add: follows_def bar_steps_def)
    ultimately show ?thesis using d1(1) by blast
  next
    case (Inr data)
    obtain d' w2 tr where t: "transform_hourly E data w1 = ((d', w2), tr)"
      by (cases "transform_hourly E data w1") auto
    from transform_hourly_trace[OF t] obtain d2 where
      d2: "trace w2 = trace w1 @ d2" "follows [Normalize, Store ''hourly_data''] d2 tr" by blast
    have f1: "follows [Fetch (hourly_url ticker)] d1 None"
      using d1(2) by (simp add: follows_def)
    have f12: "follows (bar_steps ticker) (d1 @ d2) tr"
      using follows_then[OF f1 d2(2)] by (simp add: bar_steps_def)
    show ?thesis
    proof (cases tr)
      case (Some x)
      with Cons.prems e Inr t have "w' = w2" "r = Some x" by auto
      moreover have "follows (concat (map bar_steps (ticker # ts))) (d1 @ d2) (Some x)"
        using follows_stop[OF f12[unfolded Some]] by simp
      moreover have "trace w2 = trace w @ (d1 @ d2)" using d1(1) d2(1) by simp
      ultimately show ?thesis by blast
    next
      case None
      with Cons.prems e Inr t have "hourly_stage E ts w2 = (w', r)" by auto
      from Cons.IH[OF this] obtain d3 where
        d3: "trace w' = trace w2 @ d3" "follows (concat (map bar_steps ts)) d3 r" by blast
      have "follows (concat (map bar_steps (ticker # ts))) ((d1 @ d2) @ d3) r"
        using follows_then[OF f12[unfolded None] d3(2)] by simp
      moreover have "trace w' = trace w @ ((d1 @ d2) @ d3)" using d1(1) d2(1) d3(1) by simp
      ultimately show ?thesis by blast
    qed
  qed
qed

lemma indicator_loop_trace:
  "indicator_loop E ticker inds w = (w', r) \<Longrightarrow>
   \<exists>d. trace w' = trace w @ d \<and> follows (concat (map (indicator_steps E ticker) inds)) d r"
proof (induction inds arbitrary: w)
  case Nil
  then have "trace w' = trace w @ []"
    "follows (concat (map (indicator_steps E ticker) [])) [] r"
    by (auto simp: follows_def)
  then show ?case by blast
next
  case (Cons ind inds)
  obtain w1 er where e: "extract_url E (technical_url E ind ticker) w = (w1, er)"
    by (cases "extract_url E (technical_url E ind ticker) w")
  from extract_url_trace[OF e] obtain d1 where
    d1: "trace w1 = trace w @ d1" "steps d1 = [Fetch (technical_url E ind ticker)]" by blast
  show ?case
  proof (cases er)
    case (Inl x)
    with Cons.prems e have "w' = w1" "r = Some x" by auto
    moreover have "follows (concat (map (indicator_steps E ticker) (ind # inds))) d1 (Some x)"
      using d1(2) by (simp add: follows_def indicator_steps_def)
    ultimately show ?thesis using d1(1) by blast
  next
    case (Inr data)
    obtain d' w2 tr where t: "transform_technical E data ind w1 = ((d', w2), tr)"
      by (cases "transform_technical E data ind w1") auto
    from transform_technical_trace[OF t] obtain d2 where
      d2: "trace w2 = trace w1 @ d2" "follows [Normalize, Store ''technical_data''] d2 tr" by blast
    have f1: "follows [Fetch (technical_url E ind ticker)] d1 None"
      using d1(2) by (simp add: follows_def)
    have f12: "follows [Fetch (technical_url E ind ticker), Normalize, Store ''technical_data'']
        (d1 @ d2) tr"
      using follows_then[OF f1 d2(2)] by simp
    show ?thesis
    proof (cases tr)
      case (Some x)
      with Cons.prems e Inr t have "w' = w2" "r = Some x" by auto
      moreover have "follows (concat (map (indicator_steps E ticker) (ind # inds))) (d1 @ d2) (Some x)"
        using follows_stop[OF f12[unfolded Some], of "Pause 60 # concat (map (indicator_steps E ticker) inds)"]
        by (simp add: indicator_steps_def)
      moreover have "trace w2 = trace w @ (d1 @ d2)" using d1(1) d2(1) by simp
      ultimately show ?thesis by blast
    next
      case None
      with Cons.prems e Inr t
      have "indicator_loop E ticker inds (w2\<lparr>trace := trace w2 @ [Sleep 60]\<rparr>) = (w', r)" by auto
      from Cons.IH[OF this] obtain d3 where
        d3: "trace w' = trace (w2\<lparr>trace := trace w2 @ [Sleep 60]\<rparr>) @ d3"
          "follows (concat (map (indicator_steps E ticker) inds)) d3 r" by blast
      have f123: "follows (indicator_steps E ticker ind) ((d1 @ d2) @ [Sleep 60]) None"
        using follows_then[OF f12[unfolded None], of "[Pause 60]" "[Sleep 60]" None]
        by (simp add: follows_def indicator_steps_def)
      have "follows (concat (map (indicator_steps E ticker) (ind # inds)))
          (((d1 @ d2) @ [Sleep 60]) @ d3) r"
        using follows_then[OF f123 d3(2)] by simp
      moreover have "trace w' = trace w @ (((d1 @ d2) @ [Sleep 60]) @ d3)"
        using d1(1) d2(1) d3(1) by simp
      ultimately show ?thesis by blast
    qed
  qed
qed

lemma technical_stage_trace:
  "technical_stage E ts inds w = (w', r) \<Longrightarrow>
   \<exists>d. trace w' = trace w @ d \<and>
     follows (concat (map (\<lambda>ticker. concat (map (indicator_steps E ticker) inds)) ts)) d r"
proof (induction ts arbitrary: w)
  case Nil
  then have "trace w' = trace w @ []"
    "follows (concat (map (\<lambda>ticker. concat (map (indicator_steps E ticker) inds)) [])) [] r"
    by (auto simp: follows_def)
  then show ?case by blast
next
  case (Cons ticker ts)
  obtain w1 r1 where one: "indicator_loop E ticker inds w = (w1, r1)"
    by (cases "indicator_loop E ticker inds w")
  from indicator_loop_trace[OF one] obtain d1 where
    d1: "trace w1 = trace w @ d1"
      "follows (concat (map (indicator_steps E ticker) inds)) d1 r1" by blast
  show ?case
  proof (cases r1)
    case (Some x)
    with Cons.prems one have "w' = w1" "r = Some x" by auto
    moreover have "follows (concat (map (\<lambda>ticker. concat (map (indicator_steps E ticker) inds))
        (ticker # ts))) d1 (Some x)"
      using follows_stop[OF d1(2)[unfolded Some]] by simp
    ultimately show ?thesis using d1(1) by blast
  next
    case None
    with Cons.prems one have "technical_stage E ts inds w1 = (w', r)" by auto
    from Cons.IH[OF this] obtain d2 where
      d2: "trace w' = trace w1 @ d2"
        "follows (concat (map (\<lambda>ticker. concat (map (indicator_steps E ticker) inds)) ts)) d2 r"
      by blast
    have "follows (concat (map (\<lambda>ticker. concat (map (indicator_steps E ticker) inds))
        (ticker # ts))) (d1 @ d2) r"
      using follows_then[OF d1(2)[unfolded None] d2(2)] by simp
    moreover have "trace w' = trace w @ (d1 @ d2)" using d1(1) d2(1) by simp
    ultimately show ?thesis by blast
  qed
qed

lemma run_stages_trace:
  assumes "run_stages E ts inds w = (w', r)"
  shows "\<exists>d. trace w' = trace w @ d \<and> follows (schedule E ts inds) d r"
proof -
  obtain w1 r1 where a: "hourly_stage E ts w = (w1, r1)"
    by (cases "hourly_stage E ts w")
  from hourly_stage_trace[OF a] obtain d1 where
    d1: "trace w1 = trace w @ d1" "follows (concat (map bar_steps ts)) d1 r1" by blast
  show ?thesis
  proof (cases r1)
    case (Some x)
    with assms a have "w' = w1" "r = Some x"
      by (auto simp: run_stages_def then_stmt_def)
    moreover have "follows (schedule E ts inds) d1 (Some x)"
      unfolding schedule_def by (rule follows_stop[OF d1(2)[unfolded Some]])
    ultimately show ?thesis using d1(1) by blast
  next
    case None
    with assms a
    have b: "technical_stage E ts inds (w1\<lparr>trace := trace w1 @ [Sleep 100]\<rparr>) = (w', r)"
      by (auto simp: run_stages_def then_stmt_def emit_def)
    from technical_stage_trace[OF b] obtain d2 where
      d2: "trace w' = trace (w1\<lparr>trace := trace w1 @ [Sleep 100]\<rparr>) @ d2"
        "follows (concat (map (\<lambda>ticker. concat (map (indicator_steps E ticker) inds)) ts)) d2 r"
      by blast
    have p: "follows [Pause 100] [Sleep 100] None" by (simp add: follows_def)
    have "follows (schedule E ts inds) (d1 @ [Sleep 100] @ d2) r"
      unfolding schedule_def
      by (rule follows_then[OF d1(2)[unfolded None] follows_then[OF p d2(2)]])
    moreover have "trace w' = trace w @ (d1 @ [Sleep 100] @ d2)" using d1(1) d2(1) by simp
    ultimately show ?thesis by blast
  qed
qed

text \<open>
  Claim C8. Every run of the script follows the plan: its steps are, in order, one
  fetch, normalization and store of bars for each ticker of the list, with no pause
  between them, then the pause of 100 seconds, then for each ticker and each indicator,
  in the nested order of the two lists, one fetch, normalization and store followed by
  a pause of 60 seconds. A run that ends normally does all of the plan; an exception
  ends the run where it is raised, after a beginning of the plan. The plan has exactly
  one pause of 100 seconds and one pause of 60 seconds for every pair.
\<close>

theorem script_schedule:
  assumes "script E w = (w', r)"
  shows "\<exists>d. trace w' = trace w @ d \<and>
           follows (schedule E tickers technical_indicators) d r \<and>
           count_list (schedule E tickers technical_indicators) (Pause 100) = 1 \<and>
           count_list (schedule E tickers technical_indicators) (Pause 60) =
             length tickers * length technical_indicators"
proof -
  from run_stages_trace[OF assms[unfolded script_def]] obtain d where
    d: "trace w' = trace w @ d" "follows (schedule E tickers technical_indicators) d r" by blast
  have "count_list (schedule E tickers technical_indicators) (Pause 100) = 1"
    by (simp add: schedule_def tickers_def technical_indicators_def bar_steps_def
        indicator_steps_def)
  moreover have "count_list (schedule E tickers technical_indicators) (Pause 60) =
      length tickers * length technical_indicators"
    by (simp add: schedule_def tickers_def technical_indicators_def bar_steps_def
        indicator_steps_def)
  ultimately show ?thesis using d by auto
qed

lemma extract_url_cpython:
  "extract_url (cpython doc) url w =
     (w\<lparr>trace := trace w @ [HttpGet url, Print ''Status code'', Print ''Extract time'']\<rparr>, Inr doc)"
  by (simp add: extract_url_def cpython_def)

lemma transform_hourly_empty:
  "\<exists>d w'. transform_hourly (cpython doc) empty_payload w = ((d, w'), None)"
  by (simp add: transform_hourly_def bind_err_def py_iter_def py_getitem_def empty_payload_def
      then_stmt_def emit_def load_hourly_eq cpython_def split: prod.splits)

lemma transform_technical_empty:
  "\<exists>d w'. transform_technical (cpython doc) empty_payload indicator w = ((d, w'), None)"
  by (simp add: transform_technical_def bind_err_def py_iter_def py_getitem_def empty_payload_def
      then_stmt_def emit_def load_technical_eq cpython_def split: prod.splits)

lemma hourly_stage_empty: "\<exists>w'. hourly_stage (cpython empty_payload) ts w = (w', None)"
proof (induction ts arbitrary: w)
  case Nil
  then show ?case by simp
next
  case (Cons ticker ts)
  obtain d w2 where t: "transform_hourly (cpython empty_payload) empty_payload
      (w\<lparr>trace := trace w @ [HttpGet (hourly_url ticker), Print ''Status code'',
         Print ''Extract time'']\<rparr>) = ((d, w2), None)"
    using transform_hourly_empty by blast
  from Cons.IH[of w2] t show ?case
    by (simp add: extract_url_cpython)
qed

lemma indicator_loop_empty:
  "\<exists>w'. indicator_loop (cpython empty_payload) ticker inds w = (w', None)"
proof (induction inds arbitrary: w)
  case Nil
  then show ?case by simp
next
  case (Cons ind inds)
  obtain d w2 where t: "transform_technical (cpython empty_payload) empty_payload ind
      (w\<lparr>trace := trace w @ [HttpGet (technical_url (cpython empty_payload) ind ticker),
         Print ''Status code'', Print ''Extract time'']\<rparr>) = ((d, w2), None)"
    using transform_technical_empty by blast
  from Cons.IH[of "w2\<lparr>trace := trace w2 @ [Sleep 60]\<rparr>"] t show ?case
    by (simp add: extract_url_cpython)
qed

lemma technical_stage_empty:
  "\<exists>w'. technical_stage (cpython empty_payload) ts inds w = (w', None)"
proof (induction ts arbitrary: w)
  case Nil
  then show ?case by simp
next
  case (Cons ticker ts)
  obtain w1 where t: "indicator_loop (cpython empty_payload) ticker inds w = (w1, None)"
    using indicator_loop_empty by blast
  from Cons.IH[of w1] t show ?case by simp
qed

lemma script_empty: "\<exists>w'. script (cpython empty_payload) w = (w', None)"
proof -
  obtain w1 where a: "hourly_stage (cpython empty_payload) tickers w = (w1, None)"
    using hourly_stage_empty by blast
  obtain w2 where b: "technical_stage (cpython empty_payload) tickers technical_indicators
      (w1\<lparr>trace := trace w1 @ [Sleep 100]\<rparr>) = (w2, None)"
    using technical_stage_empty by blast
  from a b show ?thesis
    by (simp add: script_def run_stages_def then_stmt_def emit_def)
qed

text \<open>A run in which the API answers every request with an empty list of values.\<close>

theorem script_schedule_witness:
  "snd (script (cpython empty_payload) new_world) = None \<and>
   steps (trace (fst (script (cpython empty_payload) new_world))) =
     schedule (cpython empty_payload) tickers technical_indicators \<and>
   count_list (schedule (cpython empty_payload) tickers technical_indicators) (Pause 100) = 1 \<and>
   count_list (schedule (cpython empty_payload) tickers technical_indicators) (Pause 60) = 32"
proof -
  obtain w' where s: "script (cpython empty_payload) new_world = (w', None)"
    using script_empty by blast
  have t: "trace (new_world :: decimal world) = []" by (simp add: new_world_def)
  from script_schedule[OF s] t s show ?thesis
    by (auto simp: follows_def tickers_def technical_indicators_def)
qed

end
